theory Spec2Isabelle
  imports Main "HOL-Library.Sublist"
begin

section \<open>JavaScript values, errors and strings\<close>

text \<open>
  The storage engine of \<^verbatim>\<open>src/repository.js\<close> keeps URL-shortener records as git
  commits. The embedding follows that file function by function. Its collaborators
  (nodegit, the \<^verbatim>\<open>url\<close> module, \<^verbatim>\<open>base-58\<close>, \<^verbatim>\<open>gray-matter\<close>, \<^verbatim>\<open>yaml\<close>) are
  not part of the repository: the pure ones are passed in as a record of functions, the
  commit object store is modelled as a record of its state.
\<close>

datatype git_errno = EAMBIGUOUS | ENOTFOUND | ENONFASTFORWARD | ECONFLICT | ITEROVER | GENERIC

text \<open>
  Everything the code can throw: \<^verbatim>\<open>new Error(msg)\<close> of the repository itself, an error
  of nodegit carrying an \<^verbatim>\<open>errno\<close>, and anything a library throws.
\<close>

datatype exn = Error string | NodeGitError git_errno | LibraryError string

text \<open>The values a record field or a parsed header entry can hold.\<close>

datatype jsval = JUndefined | JNull | JBool bool | JNum int | JStr string | JDate int

text \<open>A reference that may be \<^verbatim>\<open>null\<close> or \<^verbatim>\<open>undefined\<close>; both are falsy.\<close>

datatype 'a nullable = Null | Undefined | Obj 'a

fun truthy :: "'a nullable \<Rightarrow> bool" where
  "truthy (Obj x) = True"
| "truthy Null = False"
| "truthy Undefined = False"

text \<open>Truthiness of a value, as \<^verbatim>\<open>if (v)\<close>, \<^verbatim>\<open>!v\<close> and \<^verbatim>\<open>v || w\<close> read it.\<close>

fun js_truthy :: "jsval \<Rightarrow> bool" where
  "js_truthy JUndefined = False"
| "js_truthy JNull = False"
| "js_truthy (JBool b) = b"
| "js_truthy (JNum n) = (n \<noteq> 0)"
| "js_truthy (JStr s) = (s \<noteq> [])"
| "js_truthy (JDate t) = True"

text \<open>
  An object is the list of its own properties in insertion order, with distinct keys.
  Reading a missing property gives \<^verbatim>\<open>undefined\<close>.
\<close>

type_synonym jsobject = "(string \<times> jsval) list"

definition get_prop :: "jsobject \<Rightarrow> string \<Rightarrow> jsval" where
  "get_prop obj k = (case map_of obj k of None \<Rightarrow> JUndefined | Some v \<Rightarrow> v)"

fun set_prop :: "jsobject \<Rightarrow> string \<Rightarrow> jsval \<Rightarrow> jsobject" where
  "set_prop [] k v = [(k, v)]"
| "set_prop ((k', v') # ps) k v =
     (if k' = k then (k, v) # ps else (k', v') # set_prop ps k v)"

text \<open>
  The object literal \<^verbatim>\<open>{ ...base, ...data }\<close>: the properties of \<open>data\<close> are written over
  those of \<open>base\<close>, one after the other.
\<close>

definition spread :: "jsobject \<Rightarrow> jsobject \<Rightarrow> jsobject" where
  "spread base data = foldl (\<lambda>obj (k, v). set_prop obj k v) base data"

definition toLowerCase_char :: "char \<Rightarrow> char" where
  "toLowerCase_char c =
     (case map_of (zip ''ABCDEFGHIJKLMNOPQRSTUVWXYZ'' ''abcdefghijklmnopqrstuvwxyz'') c of
        Some l \<Rightarrow> l
      | None \<Rightarrow> c)"

definition toLowerCase :: "string \<Rightarrow> string" where
  "toLowerCase s = map toLowerCase_char s"

definition is_whitespace :: "char \<Rightarrow> bool" where
  "is_whitespace c = (c \<in> {CHR 0x09, CHR 0x0A, CHR 0x0B, CHR 0x0C, CHR 0x0D, CHR '' ''})"

text \<open>\<^verbatim>\<open>String.prototype.trim\<close> on the ASCII range.\<close>

definition trim :: "string \<Rightarrow> string" where
  "trim s = rev (dropWhile is_whitespace (rev (dropWhile is_whitespace s)))"

text \<open>\<^verbatim>\<open>s.split("\n")\<close>: the pieces between newlines; the empty string gives one empty piece.\<close>

fun split_lines :: "string \<Rightarrow> string list" where
  "split_lines [] = [[]]"
| "split_lines (c # cs) =
     (if c = CHR 0x0A then [] # split_lines cs
      else (case split_lines cs of [] \<Rightarrow> [[c]] | l # ls \<Rightarrow> (c # l) # ls))"

section \<open>Collaborators\<close>

record signature =
  sig_name :: string
  sig_time :: int
  sig_offset :: int

text \<open>
  A commit as the code reads it: \<^verbatim>\<open>commit.id()\<close> (40 lower-case hex characters),
  \<^verbatim>\<open>commit.message()\<close>, \<^verbatim>\<open>commit.author()\<close>, the committer time the walker sorts
  by, and the ids of its parents.
\<close>

record commit =
  commit_id :: string
  message :: string
  author :: signature
  commit_time :: int
  parents :: "string list"

datatype gitobject = CommitObj commit | OtherObj string

fun object_id :: "gitobject \<Rightarrow> string" where
  "object_id (CommitObj c) = commit_id c"
| "object_id (OtherObj i) = i"

datatype repo_state = NONE | MERGE | REVERT | CHERRYPICK | BISECT | REBASE

datatype walk_start = Push string | PushRange string

text \<open>
  Modelled from the spec: the commit object store of nodegit, as far as the code
  observes it.
  \<^item> \<open>odb\<close>: the objects of the database, in the order in which
    \<^verbatim>\<open>git rev-parse --disambiguate\<close> prints them;
  \<^item> \<open>refs\<close>: what \<^verbatim>\<open>repo.getReference(name)\<close> finds: whether the reference is a local
    branch, and the id it points to;
  \<^item> \<open>HEAD\<close>: the name of the reference \<^verbatim>\<open>HEAD\<close> points to;
  \<^item> \<open>index_conflicts\<close>: \<^verbatim>\<open>index.hasConflicts()\<close>;
  \<^item> \<open>index_patches\<close>: the number of patches between the tree of the head commit and
    the index;
  \<^item> \<open>state\<close>: \<^verbatim>\<open>repo.state()\<close>;
  \<^item> \<open>remotes\<close>: the configured remotes and their URLs;
  \<^item> \<open>remote_refs\<close>: the references the remote advertises, by their full names, with the
    ids they point to;
  \<^item> \<open>walk\<close>: the ids a revision walker visits from a starting point, before any sorting
    is applied, or the error of a starting point that does not resolve;
  \<^item> \<open>default_signature\<close>: \<^verbatim>\<open>Signature.default(repo)\<close>, the configured identity at the
    current time.
\<close>

record repo =
  odb :: "gitobject list"
  refs :: "string \<Rightarrow> (bool \<times> string) option"
  HEAD :: string
  index_conflicts :: bool
  index_patches :: nat
  state :: repo_state
  remotes :: "string \<Rightarrow> string option"
  remote_refs :: "string \<Rightarrow> string option"
  walk :: "walk_start \<Rightarrow> exn + string list"
  default_signature :: signature

text \<open>
  The library functions the code calls.
  \<^item> \<open>URL_new\<close> is the WHATWG constructor \<^verbatim>\<open>new URL(url)\<close>, which throws on input that
    does not parse.
  \<^item> \<open>url_scheme\<close> is the scheme the legacy \<^verbatim>\<open>url.parse\<close> finds in its argument, as
    written there (\<open>None\<close> when it finds none); it throws on an argument that is not a
    string.
  \<^item> \<open>base58_encode\<close>, \<open>base58_decode\<close>: the \<^verbatim>\<open>base-58\<close> package, on byte lists.
  \<^item> \<open>matter\<close>: \<^verbatim>\<open>gray-matter\<close>, giving the \<^verbatim>\<open>content\<close> and the \<^verbatim>\<open>data\<close> of a text.
  \<^item> \<open>YAML_stringify\<close>: \<^verbatim>\<open>YAML.stringify\<close>.
  \<^item> \<open>path_join\<close>: \<^verbatim>\<open>path.join\<close> of two arguments; it throws on an argument that is
    not a string.
  \<^item> \<open>match_github\<close>: the named groups \<^verbatim>\<open>username\<close> and \<^verbatim>\<open>repo\<close> of the first of the
    two regular expressions of \<^verbatim>\<open>_getShortUrl\<close> that matches the remote's URL.
  \<^item> \<open>Number_toString\<close>, \<open>Date_toString\<close>: how a template literal prints a number and a
    date.
  \<^item> \<open>stateCleanup\<close>: the state \<^verbatim>\<open>repo.stateCleanup()\<close> leaves the store in; libgit2
    removes what marks a merge, revert, cherry-pick, bisect or rebase in progress.
  \<^item> \<open>createCommit_id\<close>: the id the store gives a new commit, computed from its parents,
    author, committer and message.
  \<^item> \<open>remote_push\<close>, \<open>remote_fetch\<close>, \<open>mergeBranches\<close>: \<^verbatim>\<open>remote.push\<close> and
    \<^verbatim>\<open>remote.fetch\<close> of a remote (named by its URL) with a list of refspecs, and
    \<^verbatim>\<open>repo.mergeBranches\<close>; each gives the store afterwards, or throws.
\<close>

record libs =
  URL_new :: "jsval \<Rightarrow> exn + unit"
  url_scheme :: "jsval \<Rightarrow> exn + string option"
  base58_encode :: "nat list \<Rightarrow> string"
  base58_decode :: "string \<Rightarrow> exn + nat list"
  matter :: "string \<Rightarrow> exn + (string \<times> jsobject)"
  YAML_stringify :: "jsobject \<Rightarrow> string"
  path_join :: "jsval \<Rightarrow> jsval \<Rightarrow> exn + jsval"
  match_github :: "string \<Rightarrow> (string \<times> string) option"
  Number_toString :: "int \<Rightarrow> string"
  Date_toString :: "int \<Rightarrow> string"
  stateCleanup :: "repo_state \<Rightarrow> exn + repo_state"
  createCommit_id :: "string list \<Rightarrow> signature \<Rightarrow> signature \<Rightarrow> string \<Rightarrow> string"
  remote_push :: "repo \<Rightarrow> string \<Rightarrow> string list \<Rightarrow> exn + repo"
  remote_fetch :: "repo \<Rightarrow> string \<Rightarrow> string list \<Rightarrow> exn + repo"
  mergeBranches :: "repo \<Rightarrow> string \<Rightarrow> string \<Rightarrow> exn + repo"

text \<open>
  \<^verbatim>\<open>parse(url).protocol\<close>: the legacy parser reports the scheme in lower case, followed
  by a colon, and \<^verbatim>\<open>null\<close> when the input has no scheme.
\<close>

definition parse_protocol :: "libs \<Rightarrow> jsval \<Rightarrow> exn + jsval" where
  "parse_protocol L url =
     (case url_scheme L url of
        Inl e \<Rightarrow> Inl e
      | Inr None \<Rightarrow> Inr JNull
      | Inr (Some s) \<Rightarrow> Inr (JStr (toLowerCase s @ '':'')))"

section \<open>URL Validator\<close>

definition VALID_PROTOCOLS :: "string list" where
  "VALID_PROTOCOLS = [''http'', ''https'', ''ftp'']"

text \<open>The body of the \<^verbatim>\<open>try\<close> block of \<^verbatim>\<open>isValidURL\<close>.\<close>

definition isValidURL_try :: "libs \<Rightarrow> jsval \<Rightarrow> exn + bool" where
  "isValidURL_try L url =
     (case URL_new L url of
        Inl e \<Rightarrow> Inl e
      | Inr _ \<Rightarrow>
          (case parse_protocol L url of
             Inl e \<Rightarrow> Inl e
           | Inr protocol \<Rightarrow>
               Inr (protocol \<in> set (map (\<lambda>x. JStr (toLowerCase x @ '':'')) VALID_PROTOCOLS))))"

text \<open>\<^verbatim>\<open>isValidURL\<close>: whatever the \<^verbatim>\<open>try\<close> block throws is caught and becomes \<^verbatim>\<open>false\<close>.\<close>

definition isValidURL :: "libs \<Rightarrow> jsval \<Rightarrow> exn + bool" where
  "isValidURL L url =
     (case isValidURL_try L url of
        Inl err \<Rightarrow> Inr False
      | Inr b \<Rightarrow> Inr b)"

section \<open>Commit object store\<close>

definition is_hex_char :: "char \<Rightarrow> bool" where
  "is_hex_char c = (c \<in> set ''0123456789abcdefABCDEF'')"

text \<open>\<^verbatim>\<open>repo.getCommit(id)\<close>: the commit with that full id, or an error.\<close>

definition getCommit :: "repo \<Rightarrow> string \<Rightarrow> exn + commit" where
  "getCommit r i =
     (case find (\<lambda>ob. object_id ob = i) (odb r) of
        Some (CommitObj c) \<Rightarrow> Inr c
      | _ \<Rightarrow> Inl (NodeGitError ENOTFOUND))"

text \<open>
  Modelled from the spec: the external disambiguation process. Its standard output is the
  full ids of the objects sharing the prefix, one per line. The process is taken to run
  to a normal exit.
\<close>

definition git_rev_parse_disambiguate :: "repo \<Rightarrow> string \<Rightarrow> string" where
  "git_rev_parse_disambiguate r p =
     concat (map (\<lambda>ob. object_id ob @ [CHR 0x0A])
       (filter (\<lambda>ob. prefix (toLowerCase p) (object_id ob)) (odb r)))"

section \<open>Commit Resolver\<close>

text \<open>The regular expression \<^verbatim>\<open>/^[a-fA-F0-9]{4,}$/\<close>.\<close>

definition matches_hex4 :: "string \<Rightarrow> bool" where
  "matches_hex4 s = (4 \<le> length s \<and> list_all is_hex_char s)"

text \<open>
  The loop of \<^verbatim>\<open>disambigateCommit\<close>: the first id that \<^verbatim>\<open>repo.getCommit\<close> accepts is
  returned; an id it throws on is skipped; running off the end returns \<^verbatim>\<open>undefined\<close>.
\<close>

fun first_commit :: "repo \<Rightarrow> string list \<Rightarrow> commit nullable" where
  "first_commit r [] = Undefined"
| "first_commit r (i # ids) =
     (case getCommit r i of
        Inr c \<Rightarrow> Obj c
      | Inl e \<Rightarrow> first_commit r ids)"

text \<open>
  \<^verbatim>\<open>disambigateCommit\<close>. The first component is the list of command lines handed to
  \<^verbatim>\<open>child_process.exec\<close>, in order; the second is what the function returns.
\<close>

definition disambigateCommit :: "repo \<Rightarrow> string \<Rightarrow> string list \<times> commit nullable" where
  "disambigateCommit r ambiguousId =
     (if \<not> matches_hex4 ambiguousId then ([], Null)
      else
        let command = ''git rev-parse --disambiguate='' @ ambiguousId;
            stdout = git_rev_parse_disambiguate r ambiguousId;
            commits = split_lines (trim stdout)
        in ([command], first_commit r commits))"

text \<open>
  \<^verbatim>\<open>Oid.fromString\<close>: a hexadecimal string of at most 40 characters is an object id
  (prefix), read without regard to case; anything else is an error.
\<close>

definition Oid_fromString :: "string \<Rightarrow> exn + string" where
  "Oid_fromString s =
     (if list_all is_hex_char s \<and> length s \<le> 40 then Inr (toLowerCase s)
      else Inl (NodeGitError GENERIC))"

text \<open>
  Modelled from the spec: \<^verbatim>\<open>Commit.lookupPrefix\<close>, the prefix lookup of the store, which
  reports ambiguity distinctly from not-found. A prefix of fewer than four characters is
  reported as ambiguous; so is one that several objects share. A single object that is
  not a commit is not found.
\<close>

definition lookupPrefix :: "repo \<Rightarrow> string \<Rightarrow> nat \<Rightarrow> exn + commit" where
  "lookupPrefix r oid len =
     (if len < 4 then Inl (NodeGitError EAMBIGUOUS)
      else
        (case filter (\<lambda>ob. prefix (take len oid) (object_id ob)) (odb r) of
           [] \<Rightarrow> Inl (NodeGitError ENOTFOUND)
         | [CommitObj c] \<Rightarrow> Inr c
         | [OtherObj i] \<Rightarrow> Inl (NodeGitError ENOTFOUND)
         | _ \<Rightarrow> Inl (NodeGitError EAMBIGUOUS)))"

definition getCommitFromShortCommitId :: "repo \<Rightarrow> string \<Rightarrow> exn + commit nullable" where
  "getCommitFromShortCommitId r shortId =
     (case (case Oid_fromString shortId of
              Inl e \<Rightarrow> Inl e
            | Inr oid \<Rightarrow> lookupPrefix r oid (length shortId)) of
        Inr c \<Rightarrow> Inr (Obj c)
      | Inl e \<Rightarrow>
          (if e \<noteq> NodeGitError EAMBIGUOUS then Inl e
           else Inr (snd (disambigateCommit r shortId))))"

section \<open>Identifier Engine\<close>

definition MINIMUM_HASH :: nat where
  "MINIMUM_HASH = 4"

definition hex_value :: "char \<Rightarrow> nat option" where
  "hex_value c =
     map_of (zip ''0123456789abcdefABCDEF''
       [0, 1, 2, 3, 4, 5, 6, 7, 8, 9, 10, 11, 12, 13, 14, 15, 10, 11, 12, 13, 14, 15]) c"

text \<open>
  \<^verbatim>\<open>Buffer.from(s, 'hex')\<close>: one byte for every pair of hexadecimal characters, up to
  the first pair that is not one.
\<close>

fun from_hex :: "string \<Rightarrow> nat list" where
  "from_hex (a # b # cs) =
     (case (hex_value a, hex_value b) of
        (Some x, Some y) \<Rightarrow> (16 * x + y) # from_hex cs
      | _ \<Rightarrow> [])"
| "from_hex _ = []"

definition hex_digit :: "nat \<Rightarrow> char" where
  "hex_digit n = ''0123456789abcdef'' ! n"

text \<open>\<^verbatim>\<open>buffer.toString('hex')\<close>: two lower-case characters for every byte.\<close>

definition to_hex :: "nat list \<Rightarrow> string" where
  "to_hex bs = concat (map (\<lambda>b. [hex_digit (b div 16 mod 16), hex_digit (b mod 16)]) bs)"

text \<open>
  The \<^verbatim>\<open>while\<close> loop of \<^verbatim>\<open>getShortId\<close>; the result is the encoded prefix, or
  \<^verbatim>\<open>undefined\<close> when the loop runs past the length of the id.
\<close>

function getShortId_loop :: "libs \<Rightarrow> repo \<Rightarrow> string \<Rightarrow> nat \<Rightarrow> exn + jsval" where
  "getShortId_loop L r longId hashLength =
     (if hashLength \<le> length longId then
        (let shortId = take hashLength longId in
         case getCommitFromShortCommitId r shortId of
           Inl e \<Rightarrow> Inl e
         | Inr shortCommit \<Rightarrow>
             (if truthy shortCommit \<and> (case shortCommit of Obj c \<Rightarrow> commit_id c = longId | _ \<Rightarrow> False)
              then (let shortIdBuffer = from_hex shortId
                    in Inr (JStr (base58_encode L shortIdBuffer)))
              else getShortId_loop L r longId (hashLength + 2)))
      else Inr JUndefined)"
  by pat_completeness auto
termination
  by (relation "measure (\<lambda>(L, r, longId, hashLength). Suc (length longId) - hashLength)") auto

declare getShortId_loop.simps [simp del]

definition getShortId :: "libs \<Rightarrow> repo \<Rightarrow> commit \<Rightarrow> nat \<Rightarrow> exn + jsval" where
  "getShortId L r c hashLength = getShortId_loop L r (commit_id c) hashLength"

text \<open>
  The store is well formed when its object ids are distinct and each is 40 lower-case
  hexadecimal characters.
\<close>

definition is_lower_hex :: "char \<Rightarrow> bool" where
  "is_lower_hex c = (c \<in> set ''0123456789abcdef'')"

definition is_oid :: "string \<Rightarrow> bool" where
  "is_oid i = (length i = 40 \<and> list_all is_lower_hex i)"

definition wf_odb :: "repo \<Rightarrow> bool" where
  "wf_odb r = (distinct (map object_id (odb r)) \<and> list_all (\<lambda>ob. is_oid (object_id ob)) (odb r))"

section \<open>Record Codec and the read path\<close>

text \<open>The class \<^verbatim>\<open>Repository\<close>: the fields its constructor sets.\<close>

record Repository =
  path :: string
  branch :: string
  upstream :: string
  baseUrl :: jsval

text \<open>How a template literal prints a value.\<close>

fun ToString :: "libs \<Rightarrow> jsval \<Rightarrow> string" where
  "ToString L (JStr s) = s"
| "ToString L JUndefined = ''undefined''"
| "ToString L JNull = ''null''"
| "ToString L (JBool b) = (if b then ''true'' else ''false'')"
| "ToString L (JNum n) = Number_toString L n"
| "ToString L (JDate t) = Date_toString L t"

text \<open>\<^verbatim>\<open>repo.getRemote(name)\<close>: the URL of the remote, or an error when there is none.\<close>

definition getRemote :: "repo \<Rightarrow> string \<Rightarrow> exn + string" where
  "getRemote r name =
     (case remotes r name of
        None \<Rightarrow> Inl (NodeGitError ENOTFOUND)
      | Some u \<Rightarrow> Inr u)"

text \<open>\<^verbatim>\<open>_getShortUrl\<close>. A remote that was found is an object, so \<^verbatim>\<open>if (upstream)\<close> holds.\<close>

definition getShortUrl :: "libs \<Rightarrow> Repository \<Rightarrow> repo \<Rightarrow> jsval \<Rightarrow> exn + jsval" where
  "getShortUrl L this r shortId =
     (if js_truthy (baseUrl this) then path_join L (baseUrl this) shortId
      else
        (case getRemote r (upstream this) of
           Inl e \<Rightarrow> Inl e
         | Inr upstreamUrl \<Rightarrow>
             (case match_github L upstreamUrl of
                Some (username, repo) \<Rightarrow>
                  path_join L (JStr (''https://'' @ username @ ''.github.io/'' @ repo)) shortId
              | None \<Rightarrow> Inr JNull)))"

definition formatRedirectCommit ::
  "libs \<Rightarrow> Repository \<Rightarrow> repo \<Rightarrow> commit \<Rightarrow> exn + jsobject" where
  "formatRedirectCommit L this r c =
     (case matter L (trim (message c)) of
        Inl e \<Rightarrow> Inl e
      | Inr (description, data) \<Rightarrow>
          (case isValidURL L (get_prop data ''url'') of
             Inl e \<Rightarrow> Inl e
           | Inr valid \<Rightarrow>
               if \<not> valid then Inl (Error ''Commit is not a Redirect'')
               else
                 (case getShortId L r c 40 of
                    Inl e \<Rightarrow> Inl e
                  | Inr ident \<Rightarrow>
                      (case getShortId L r c MINIMUM_HASH of
                         Inl e \<Rightarrow> Inl e
                       | Inr shortId \<Rightarrow>
                           (let offset = sig_offset (author c) * 60;
                                created = JDate ((sig_time (author c) + offset) * 1000);
                                creator = JStr (sig_name (author c))
                            in case getShortUrl L this r shortId of
                                 Inl e \<Rightarrow> Inl e
                               | Inr shortUrl \<Rightarrow>
                                   Inr (spread
                                     [(''id'', ident), (''shortId'', shortId),
                                      (''shortUrl'', shortUrl),
                                      (''description'', JStr description),
                                      (''created'', created), (''creator'', creator)]
                                     data))))))"

text \<open>
  The two statements of \<^verbatim>\<open>Repository.get\<close> that decode an id and hand the hexadecimal
  string to the resolver.
\<close>

definition lookup_id :: "libs \<Rightarrow> repo \<Rightarrow> string \<Rightarrow> exn + commit nullable" where
  "lookup_id L r ident =
     (case base58_decode L ident of
        Inl e \<Rightarrow> Inl e
      | Inr bytes \<Rightarrow>
          (let shortCommitId = to_hex bytes
           in getCommitFromShortCommitId r shortCommitId))"

text \<open>\<^verbatim>\<open>Repository.get\<close>; \<^verbatim>\<open>!id\<close> holds of the empty string.\<close>

definition Repository_get :: "libs \<Rightarrow> Repository \<Rightarrow> repo \<Rightarrow> string \<Rightarrow> exn + jsobject" where
  "Repository_get L this r ident =
     (if ident = [] then Inl (Error ''Commit Not Found'')
      else
        (case lookup_id L r ident of
           Inl e \<Rightarrow> Inl e
         | Inr found \<Rightarrow>
             (if \<not> truthy found then Inl (Error ''Commit Not Found'')
              else (case found of
                      Obj c \<Rightarrow> formatRedirectCommit L this r c
                    | _ \<Rightarrow> Inl (Error ''Commit Not Found'')))))"

section \<open>History Walker\<close>

datatype sort_flag = SORT_TOPOLOGICAL | SORT_TIME | SORT_REVERSE

definition commit_time_of :: "repo \<Rightarrow> string \<Rightarrow> int" where
  "commit_time_of r i = (case getCommit r i of Inr c \<Rightarrow> commit_time c | Inl e \<Rightarrow> 0)"

text \<open>
  Modelled from the spec: \<^verbatim>\<open>walker.sorting(flags)\<close>. Sorting by time lists the newest
  commit first; the reverse flag turns the order round.
\<close>

definition sorting :: "repo \<Rightarrow> sort_flag list \<Rightarrow> string list \<Rightarrow> string list" where
  "sorting r flags ids =
     (let timed = (if SORT_TIME \<in> set flags
                   then sort_key (\<lambda>i. - commit_time_of r i) ids else ids)
      in if SORT_REVERSE \<in> set flags then rev timed else timed)"

text \<open>\<^verbatim>\<open>walker.next()\<close>: the next id and the walker after it; at the end, \<^verbatim>\<open>ITEROVER\<close>.\<close>

definition walker_next :: "string list \<Rightarrow> exn + (string \<times> string list)" where
  "walker_next walker =
     (case walker of
        [] \<Rightarrow> Inl (NodeGitError ITEROVER)
      | i # rest \<Rightarrow> Inr (i, rest))"

text \<open>\<^verbatim>\<open>repo.getBranchCommit(name)\<close>.\<close>

definition getBranchCommit :: "repo \<Rightarrow> string \<Rightarrow> exn + commit" where
  "getBranchCommit r name =
     (case refs r name of
        None \<Rightarrow> Inl (NodeGitError ENOTFOUND)
      | Some (is_branch, target) \<Rightarrow> getCommit r target)"

text \<open>The \<^verbatim>\<open>while (true)\<close> loop of \<^verbatim>\<open>all\<close>; the result lists what the generator yields.\<close>

function all_loop :: "libs \<Rightarrow> Repository \<Rightarrow> repo \<Rightarrow> string list \<Rightarrow> exn + jsobject list" where
  "all_loop L this r walker =
     (case walker_next walker of
        Inl error \<Rightarrow> (if error = NodeGitError ITEROVER then Inr [] else Inl error)
      | Inr (i, walker') \<Rightarrow>
          (case (case getCommit r i of
                   Inl e \<Rightarrow> Inl e
                 | Inr c \<Rightarrow> formatRedirectCommit L this r c) of
             Inr record \<Rightarrow>
               (case all_loop L this r walker' of
                  Inl e \<Rightarrow> Inl e
                | Inr rest \<Rightarrow> Inr (record # rest))
           | Inl e \<Rightarrow> all_loop L this r walker'))"
  by pat_completeness auto
termination
  by (relation "measure (\<lambda>(L, this, r, walker). length walker)")
    (auto simp: walker_next_def split: list.splits)

declare all_loop.simps [simp del]

definition Repository_all ::
  "libs \<Rightarrow> Repository \<Rightarrow> repo \<Rightarrow> jsval \<Rightarrow> jsval \<Rightarrow> exn + jsobject list" where
  "Repository_all L this r from until =
     (case (if \<not> js_truthy until
            then (case getBranchCommit r (branch this) of
                    Inl e \<Rightarrow> Inl e
                  | Inr latestCommit \<Rightarrow> Inr (JStr (commit_id latestCommit)))
            else Inr until) of
        Inl e \<Rightarrow> Inl e
      | Inr until' \<Rightarrow>
          (case walk r (if js_truthy from
                        then PushRange (ToString L from @ ''^..'' @ ToString L until')
                        else Push (ToString L until')) of
             Inl e \<Rightarrow> Inl e
           | Inr ids \<Rightarrow> all_loop L this r (sorting r [SORT_TIME, SORT_REVERSE] ids)))"

section \<open>Sync Engine\<close>

datatype remote_op =
  OpPush "string list" | OpFetch "string list" | OpMergeBranches string string

text \<open>
  \<^verbatim>\<open>Repository.commit\<close>. The result is the list of remote operations started, in order,
  what the method returns or throws, and the store afterwards.
\<close>

definition Repository_commit ::
  "libs \<Rightarrow> Repository \<Rightarrow> repo \<Rightarrow> remote_op list \<times> (exn + unit) \<times> repo" where
  "Repository_commit L this r =
     (case getRemote r (upstream this) of
        Inl e \<Rightarrow> ([], Inl e, r)
      | Inr remote \<Rightarrow>
          (let pushspec = [''refs/heads/'' @ branch this @ '':refs/heads/'' @ branch this]
           in case remote_push L r remote pushspec of
                Inr r1 \<Rightarrow> ([OpPush pushspec], Inr (), r1)
              | Inl e \<Rightarrow>
                  if e \<noteq> NodeGitError ENONFASTFORWARD then ([OpPush pushspec], Inl e, r)
                  else
                    (let fetchspec = [''remotes/'' @ upstream this @ ''/'' @ branch this
                                      @ '':refs/head/'' @ branch this];
                         theirs = ''refs/remotes/'' @ upstream this @ ''/'' @ branch this
                     in case remote_fetch L r remote fetchspec of
                          Inl e1 \<Rightarrow> ([OpPush pushspec, OpFetch fetchspec], Inl e1, r)
                        | Inr r1 \<Rightarrow>
                            (case mergeBranches L r1 (branch this) theirs of
                               Inl e2 \<Rightarrow>
                                 ([OpPush pushspec, OpFetch fetchspec,
                                   OpMergeBranches (branch this) theirs], Inl e2, r1)
                             | Inr r2 \<Rightarrow>
                                 (case remote_push L r2 remote pushspec of
                                    Inl e3 \<Rightarrow>
                                      ([OpPush pushspec, OpFetch fetchspec,
                                        OpMergeBranches (branch this) theirs, OpPush pushspec],
                                       Inl e3, r2)
                                  | Inr r3 \<Rightarrow>
                                      ([OpPush pushspec, OpFetch fetchspec,
                                        OpMergeBranches (branch this) theirs, OpPush pushspec],
                                       Inr (), r3))))))"

section \<open>Write Coordinator\<close>

text \<open>\<^verbatim>\<open>repo.getHeadCommit()\<close>, awaited: the commit \<^verbatim>\<open>HEAD\<close> resolves to, or \<^verbatim>\<open>null\<close>.\<close>

definition getHeadCommit :: "repo \<Rightarrow> commit nullable" where
  "getHeadCommit r =
     (case refs r (HEAD r) of
        None \<Rightarrow> Null
      | Some (is_branch, target) \<Rightarrow>
          (case getCommit r target of Inr c \<Rightarrow> Obj c | Inl e \<Rightarrow> Null))"

text \<open>
  \<^verbatim>\<open>repo.getHeadCommit()\<close>, not awaited: a pending promise is an object, and so truthy,
  whatever it resolves to.
\<close>

definition Promise_truthy :: "commit nullable \<Rightarrow> bool" where
  "Promise_truthy resolves_to = True"

definition hasStagedChanges :: "repo \<Rightarrow> bool" where
  "hasStagedChanges r =
     (let head = getHeadCommit r
      in if \<not> truthy head then False else 0 < index_patches r)"

text \<open>
  \<^verbatim>\<open>repo.checkoutBranch(name)\<close>, as nodegit implements it. A reference that is not found
  is an error. For one that is not a local branch the method resolves without doing
  anything. For a local branch it looks up the commit the branch points to, checks its
  tree out with the safe strategy and makes the branch what \<^verbatim>\<open>HEAD\<close> points to. The
  safe checkout refuses an index that holds unresolved conflicts, with the error
  \<^verbatim>\<open>ECONFLICT\<close>. The commits of the store all have the same tree, since \<^verbatim>\<open>create\<close> writes
  commits without touching the tree, so the checkout has no file to change and leaves the
  index as it is.
\<close>

definition checkoutBranch :: "repo \<Rightarrow> string \<Rightarrow> exn + repo" where
  "checkoutBranch r name =
     (case refs r name of
        None \<Rightarrow> Inl (NodeGitError ENOTFOUND)
      | Some (is_branch, target) \<Rightarrow>
          if \<not> is_branch then Inr r
          else
            (case getCommit r target of
               Inl e \<Rightarrow> Inl e
             | Inr c \<Rightarrow>
                 if index_conflicts r then Inl (NodeGitError ECONFLICT)
                 else Inr (r\<lparr>HEAD := name\<rparr>)))"

text \<open>
  \<^verbatim>\<open>repo.createCommitOnHead([], author, committer, message)\<close>: a commit whose only parent
  is the head commit (none in a store without one) is written to the database, and the
  reference \<^verbatim>\<open>HEAD\<close> points to is moved to it. Writing an object the database already holds
  changes nothing there.
\<close>

definition createCommitOnHead ::
  "libs \<Rightarrow> repo \<Rightarrow> signature \<Rightarrow> signature \<Rightarrow> string \<Rightarrow> string \<times> repo" where
  "createCommitOnHead L r author' committer msg =
     (let ps = (case getHeadCommit r of Obj p \<Rightarrow> [commit_id p] | _ \<Rightarrow> []);
          i = createCommit_id L ps author' committer msg;
          c = \<lparr>commit_id = i, message = msg, author = author',
               commit_time = sig_time committer, parents = ps\<rparr>
      in (i, r\<lparr>odb := (if i \<in> set (map object_id (odb r)) then odb r
                         else odb r @ [CommitObj c]),
               refs := (refs r)(HEAD r \<mapsto> (True, i))\<rparr>))"

text \<open>
  \<^verbatim>\<open>Repository.create\<close>, on the argument object \<open>args\<close>. The result is what the method
  returns or throws, and the store afterwards.
\<close>

definition Repository_create ::
  "libs \<Rightarrow> Repository \<Rightarrow> repo \<Rightarrow> jsobject \<Rightarrow> (exn + jsobject) \<times> repo" where
  "Repository_create L this r args =
     (let url = get_prop args ''url'';
          description = get_prop args ''description'';
          shouldCommit = (case get_prop args ''shouldCommit'' of
                            JUndefined \<Rightarrow> JBool True | v \<Rightarrow> v);
          extra = filter (\<lambda>(k, v). k \<notin> {''url'', ''description'', ''shouldCommit''}) args
      in case isValidURL L url of
           Inl e \<Rightarrow> (Inl e, r)
         | Inr valid \<Rightarrow>
      if \<not> valid then (Inl (Error ''A Valid URL is required.''), r)
      else
        (case checkoutBranch r (branch this) of
           Inl e \<Rightarrow> (Inl e, r)
         | Inr r1 \<Rightarrow>
        (let metadata = spread [(''url'', url)] extra;
             description = (if js_truthy description then description else JStr []);
             msg = ''---'' @ [CHR 0x0A] @ YAML_stringify L metadata @ ''---'' @ [CHR 0x0A]
                   @ ToString L description
         in if index_conflicts r1
            then (Inl (Error ''Datatabase Repository has Conflicts, cannot proceed.''), r1)
            else if hasStagedChanges r1
            then (Inl (Error ''Datatabase Repository has Staged Changes, cannot proceed.''), r1)
            else if \<not> Promise_truthy (getHeadCommit r1)
            then (Inl (Error ''Database Repository has not been initialized, cannot proceed.''), r1)
            else
              (case stateCleanup L (state r1) of
                 Inl e \<Rightarrow> (Inl e, r1)
               | Inr s2 \<Rightarrow>
              (let r2 = r1\<lparr>state := s2\<rparr>
               in if state r2 \<noteq> NONE
                  then (Inl (Error ''Database Repository is in an invalid state.''), r2)
                  else
                    (let author' = default_signature r2;
                         committer = default_signature r2;
                         (i, r3) = createCommitOnHead L r2 author' committer msg
                     in case getCommit r3 i of
                          Inl e \<Rightarrow> (Inl e, r3)
                        | Inr c \<Rightarrow>
                            (case (if js_truthy shouldCommit then Repository_commit L this r3
                                   else ([], Inr (), r3)) of
                               (ops, Inl e, r4) \<Rightarrow> (Inl e, r4)
                             | (ops, Inr u, r4) \<Rightarrow>
                                 (formatRedirectCommit L this r4 c, r4))))))))"

section \<open>A sample of the collaborators\<close>

text \<open>
  The theorems below hold for every choice of the library functions. To run the model on
  concrete inputs, this section fixes one choice: base 58 over the alphabet of the
  \<^verbatim>\<open>base-58\<close> package, a front-matter format of \<^verbatim>\<open>key: value\<close> lines whose values are
  read as strings, a URL parser that looks at the scheme only, and a remote that accepts
  a push when its branch is the local tip or one of the parents of the local tip.
\<close>

definition base58_alphabet :: string where
  "base58_alphabet = ''123456789ABCDEFGHJKLMNPQRSTUVWXYZabcdefghijkmnopqrstuvwxyz''"

text \<open>The digits of a number in a base, most significant first; none for zero.\<close>

function to_base :: "nat \<Rightarrow> nat \<Rightarrow> nat list" where
  "to_base b n = (if n = 0 \<or> b < 2 then [] else to_base b (n div b) @ [n mod b])"
  by pat_completeness auto
termination
  by (relation "measure snd") auto

declare to_base.simps [simp del]

definition from_base :: "nat \<Rightarrow> nat list \<Rightarrow> nat" where
  "from_base b ds = foldl (\<lambda>a d. a * b + d) 0 ds"

definition sample_base58_encode :: "nat list \<Rightarrow> string" where
  "sample_base58_encode bs =
     replicate (length (takeWhile (\<lambda>b. b = 0) bs)) (CHR ''1'')
     @ map (\<lambda>d. base58_alphabet ! d) (to_base 58 (from_base 256 bs))"

definition base58_index :: "char \<Rightarrow> nat" where
  "base58_index c = (case map_of (zip base58_alphabet [0 ..< 58]) c of Some i \<Rightarrow> i | None \<Rightarrow> 0)"

definition sample_base58_decode :: "string \<Rightarrow> exn + nat list" where
  "sample_base58_decode s =
     (if list_all (\<lambda>c. c \<in> set base58_alphabet) s
      then Inr (replicate (length (takeWhile (\<lambda>c. c = CHR ''1'') s)) 0
                @ to_base 256 (from_base 58 (map base58_index s)))
      else Inl (LibraryError ''Base58.decode received unacceptable input''))"

definition is_scheme_char :: "char \<Rightarrow> bool" where
  "is_scheme_char c =
     (c \<in> set ''abcdefghijklmnopqrstuvwxyzABCDEFGHIJKLMNOPQRSTUVWXYZ0123456789+.-'')"

definition sample_scheme :: "string \<Rightarrow> string option" where
  "sample_scheme s =
     (let p = takeWhile is_scheme_char s
      in if p \<noteq> [] \<and> take 1 (drop (length p) s) = '':'' then Some p else None)"

definition sample_URL_new :: "jsval \<Rightarrow> exn + unit" where
  "sample_URL_new v =
     (case v of
        JStr s \<Rightarrow>
          (case sample_scheme s of
             Some p \<Rightarrow> Inr ()
           | None \<Rightarrow> Inl (LibraryError ''ERR_INVALID_URL''))
      | _ \<Rightarrow> Inl (LibraryError ''ERR_INVALID_URL''))"

definition sample_url_scheme :: "jsval \<Rightarrow> exn + string option" where
  "sample_url_scheme v =
     (case v of
        JStr s \<Rightarrow> Inr (sample_scheme s)
      | _ \<Rightarrow> Inl (LibraryError ''ERR_INVALID_ARG_TYPE''))"

function show_nat :: "nat \<Rightarrow> string" where
  "show_nat n =
     (if n < 10 then [''0123456789'' ! n] else show_nat (n div 10) @ [''0123456789'' ! (n mod 10)])"
  by pat_completeness auto
termination
  by (relation "measure id") auto

declare show_nat.simps [simp del]

definition show_int :: "int \<Rightarrow> string" where
  "show_int i = (if i < 0 then ''-'' @ show_nat (nat (- i)) else show_nat (nat i))"

fun sample_scalar :: "jsval \<Rightarrow> string" where
  "sample_scalar (JStr s) = s"
| "sample_scalar JUndefined = ''null''"
| "sample_scalar JNull = ''null''"
| "sample_scalar (JBool b) = (if b then ''true'' else ''false'')"
| "sample_scalar (JNum n) = show_int n"
| "sample_scalar (JDate t) = show_int t"

definition sample_YAML_stringify :: "jsobject \<Rightarrow> string" where
  "sample_YAML_stringify obj =
     concat (map (\<lambda>(k, v). k @ '': '' @ sample_scalar v @ [CHR 0x0A]) obj)"

definition sample_header_line :: "string \<Rightarrow> string \<times> jsval" where
  "sample_header_line l =
     (takeWhile (\<lambda>c. c \<noteq> CHR '':'') l, JStr (drop 2 (dropWhile (\<lambda>c. c \<noteq> CHR '':'') l)))"

fun join_lines :: "string list \<Rightarrow> string" where
  "join_lines [] = []"
| "join_lines [l] = l"
| "join_lines (l # ls) = l @ [CHR 0x0A] @ join_lines ls"

text \<open>
  A text that opens with a line \<^verbatim>\<open>---\<close> and has a second such line carries a header
  between the two; what follows the second is the content. Any other text is all content.
  A line of the header with a colon is an entry. A header without entries gives no
  data; a header that mixes entries with other lines does not parse, and the parser
  throws.
\<close>

definition sample_matter :: "string \<Rightarrow> exn + (string \<times> jsobject)" where
  "sample_matter text =
     (case split_lines text of
        [] \<Rightarrow> Inr (text, [])
      | l # ls \<Rightarrow>
          if l = ''---'' \<and> ''---'' \<in> set ls
          then
            (let header = filter (\<lambda>x. x \<noteq> []) (takeWhile (\<lambda>x. x \<noteq> ''---'') ls);
                 content = join_lines (drop 1 (dropWhile (\<lambda>x. x \<noteq> ''---'') ls))
             in if list_all (\<lambda>x. CHR '':'' \<notin> set x) header then Inr (content, [])
                else if list_ex (\<lambda>x. CHR '':'' \<notin> set x) header
                then Inl (LibraryError ''YAMLException'')
                else Inr (content,
                          foldl (\<lambda>obj (k, v). set_prop obj k v) []
                            (map sample_header_line header)))
          else Inr (text, []))"

definition sample_path_join :: "jsval \<Rightarrow> jsval \<Rightarrow> exn + jsval" where
  "sample_path_join a b =
     (case (a, b) of
        (JStr x, JStr y) \<Rightarrow> Inr (JStr (x @ ''/'' @ y))
      | _ \<Rightarrow> Inl (LibraryError ''ERR_INVALID_ARG_TYPE''))"

definition sample_createCommit_id ::
  "string list \<Rightarrow> signature \<Rightarrow> signature \<Rightarrow> string \<Rightarrow> string" where
  "sample_createCommit_id ps a c msg =
     to_hex [nat (sig_time c mod 256), length msg mod 256, length ps]
     @ ''0000000000000000000000000000000000''"

text \<open>
  The sample remote advertises the references of \<open>remote_refs\<close>. A push of \<^verbatim>\<open>master\<close> is
  accepted when the remote has no such branch yet, or when its branch is the local tip or
  one of the parents of the local tip; the remote's branch and the remote-tracking branch
  then move to the local tip. Any other push is rejected as not a fast-forward.

  A fetch with the refspec \<^verbatim>\<open>src:dst\<close> sets the local reference \<^verbatim>\<open>dst\<close> to what the remote
  advertises as \<^verbatim>\<open>src\<close>, or as \<^verbatim>\<open>refs/src\<close>, \<^verbatim>\<open>refs/tags/src\<close> or \<^verbatim>\<open>refs/heads/src\<close>, the
  names libgit2 tries for a short source; it changes nothing when the remote advertises
  none of them. The objects of the remote are held by the sample database from the start.

  A merge of a branch that is the tip or one of its parents changes nothing; any other
  merge makes a commit with both tips as parents.
\<close>

definition sample_remote_push :: "repo \<Rightarrow> string \<Rightarrow> string list \<Rightarrow> exn + repo" where
  "sample_remote_push r url specs =
     (case refs r ''master'' of
        None \<Rightarrow> Inr r
      | Some (b, mine) \<Rightarrow>
          if (case remote_refs r ''refs/heads/master'' of
                None \<Rightarrow> True
              | Some theirs \<Rightarrow>
                  theirs = mine
                  \<or> (case getCommit r mine of
                        Inr c \<Rightarrow> theirs \<in> set (parents c)
                      | Inl e \<Rightarrow> False))
          then Inr (r\<lparr>refs := (refs r)(''refs/remotes/origin/master'' \<mapsto> (False, mine)),
                     remote_refs := (remote_refs r)(''refs/heads/master'' \<mapsto> mine)\<rparr>)
          else Inl (NodeGitError ENONFASTFORWARD))"

definition refspec_src :: "string \<Rightarrow> string" where
  "refspec_src spec = takeWhile (\<lambda>c. c \<noteq> CHR '':'') spec"

definition refspec_dst :: "string \<Rightarrow> string" where
  "refspec_dst spec = drop 1 (dropWhile (\<lambda>c. c \<noteq> CHR '':'') spec)"

definition sample_fetch_one :: "repo \<Rightarrow> string \<Rightarrow> repo" where
  "sample_fetch_one r spec =
     (let src = refspec_src spec
      in case List.map_filter (remote_refs r)
                [src, ''refs/'' @ src, ''refs/tags/'' @ src, ''refs/heads/'' @ src] of
           [] \<Rightarrow> r
         | i # others \<Rightarrow> r\<lparr>refs := (refs r)(refspec_dst spec \<mapsto> (False, i))\<rparr>)"

definition sample_remote_fetch :: "repo \<Rightarrow> string \<Rightarrow> string list \<Rightarrow> exn + repo" where
  "sample_remote_fetch r url specs = Inr (foldl sample_fetch_one r specs)"

definition sample_mergeBranches :: "repo \<Rightarrow> string \<Rightarrow> string \<Rightarrow> exn + repo" where
  "sample_mergeBranches r ours theirs =
     (case (refs r ours, refs r theirs) of
        (Some (b, mine), Some (b', other)) \<Rightarrow>
          if other = mine
             \<or> (case getCommit r mine of Inr c \<Rightarrow> other \<in> set (parents c) | Inl e \<Rightarrow> False)
          then Inr r
          else
          (let ps = [mine, other];
               msg = ''Merge'';
               i = sample_createCommit_id ps (default_signature r) (default_signature r) msg;
               c = \<lparr>commit_id = i, message = msg, author = default_signature r,
                    commit_time = sig_time (default_signature r), parents = ps\<rparr>
           in Inr (r\<lparr>odb := odb r @ [CommitObj c], refs := (refs r)(ours \<mapsto> (True, i))\<rparr>))
      | _ \<Rightarrow> Inl (NodeGitError ENOTFOUND))"

definition sample_libs :: libs where
  "sample_libs =
     \<lparr>URL_new = sample_URL_new,
      url_scheme = sample_url_scheme,
      base58_encode = sample_base58_encode,
      base58_decode = sample_base58_decode,
      matter = sample_matter,
      YAML_stringify = sample_YAML_stringify,
      path_join = sample_path_join,
      match_github = (\<lambda>u. None),
      Number_toString = show_int,
      Date_toString = show_int,
      stateCleanup = (\<lambda>s. Inr NONE),
      createCommit_id = sample_createCommit_id,
      remote_push = sample_remote_push,
      remote_fetch = sample_remote_fetch,
      mergeBranches = sample_mergeBranches\<rparr>"

text \<open>
  A sample store: two record commits whose ids share their first four characters and
  whose authors live in different time zones, a record commit whose header has an entry
  \<^verbatim>\<open>id\<close>, and a merge commit, which is no record.
\<close>

definition sample_signature :: signature where
  "sample_signature = \<lparr>sig_name = ''Ada'', sig_time = 1000, sig_offset = 60\<rparr>"

definition commit_A :: commit where
  "commit_A =
     \<lparr>commit_id = ''abcd100000000000000000000000000000000000'',
      message = ''---'' @ [CHR 0x0A] @ ''url: http://example.com/a'' @ [CHR 0x0A] @ ''---''
                @ [CHR 0x0A] @ ''first'',
      author = sample_signature, commit_time = 1000, parents = []\<rparr>"

definition commit_B :: commit where
  "commit_B =
     \<lparr>commit_id = ''abcd200000000000000000000000000000000000'',
      message = ''---'' @ [CHR 0x0A] @ ''url: http://example.com/b'' @ [CHR 0x0A] @ ''---''
                @ [CHR 0x0A] @ ''second'',
      author = \<lparr>sig_name = ''Bob'', sig_time = 2000, sig_offset = - 60\<rparr>,
      commit_time = 2000,
      parents = [''abcd100000000000000000000000000000000000'']\<rparr>"

definition commit_C :: commit where
  "commit_C =
     \<lparr>commit_id = ''c0ffee0000000000000000000000000000000000'',
      message = ''---'' @ [CHR 0x0A] @ ''url: http://example.com/c'' @ [CHR 0x0A] @ ''id: x''
                @ [CHR 0x0A] @ ''---'' @ [CHR 0x0A] @ ''third'',
      author = sample_signature\<lparr>sig_time := 3000\<rparr>, commit_time = 3000,
      parents = [''abcd200000000000000000000000000000000000'']\<rparr>"

definition commit_M :: commit where
  "commit_M =
     \<lparr>commit_id = ''0123450000000000000000000000000000000000'',
      message = ''Merge branch master of example.com'',
      author = sample_signature\<lparr>sig_time := 4000\<rparr>, commit_time = 4000,
      parents = [''c0ffee0000000000000000000000000000000000'']\<rparr>"

definition sample_repo :: repo where
  "sample_repo =
     \<lparr>odb = [CommitObj commit_A, CommitObj commit_B, CommitObj commit_C, CommitObj commit_M],
      refs = [''master'' \<mapsto> (True, commit_id commit_M),
              ''refs/remotes/origin/master'' \<mapsto> (False, commit_id commit_M)],
      HEAD = ''master'',
      index_conflicts = False,
      index_patches = 0,
      state = NONE,
      remotes = [''origin'' \<mapsto> ''git@example.com:short/urls.git''],
      remote_refs = [''refs/heads/master'' \<mapsto> commit_id commit_M],
      walk = (\<lambda>s. Inr [commit_id commit_M, commit_id commit_C, commit_id commit_B,
                          commit_id commit_A]),
      default_signature = sample_signature\<lparr>sig_time := 5000\<rparr>\<rparr>"

definition sample_Repository :: Repository where
  "sample_Repository =
     \<lparr>path = ''.'', branch = ''master'', upstream = ''origin'', baseUrl = JStr ''https://sho.rt''\<rparr>"


section \<open>Auxiliary notions\<close>

text \<open>The output of the disambiguation process for a list of ids.\<close>

definition unlines :: "string list \<Rightarrow> string" where
  "unlines xs = concat (map (\<lambda>i. i @ [CHR 0x0A]) xs)"

text \<open>The first commit among a list of objects.\<close>

fun first_commit_obj :: "gitobject list \<Rightarrow> commit nullable" where
  "first_commit_obj [] = Undefined"
| "first_commit_obj (CommitObj c # obs) = Obj c"
| "first_commit_obj (OtherObj i # obs) = first_commit_obj obs"

text \<open>The objects of the store whose id starts with a prefix.\<close>

definition matching :: "repo \<Rightarrow> string \<Rightarrow> gitobject list" where
  "matching r p = filter (\<lambda>ob. prefix p (object_id ob)) (odb r)"

text \<open>What the loop of \<^verbatim>\<open>all\<close> yields for a list of ids: the records of the commits that format.\<close>

fun yielded :: "libs \<Rightarrow> Repository \<Rightarrow> repo \<Rightarrow> string list \<Rightarrow> jsobject list" where
  "yielded L this r [] = []"
| "yielded L this r (i # ids) =
     (case getCommit r i of
        Inl e \<Rightarrow> yielded L this r ids
      | Inr c \<Rightarrow>
          (case formatRedirectCommit L this r c of
             Inl e \<Rightarrow> yielded L this r ids
           | Inr record \<Rightarrow> record # yielded L this r ids))"

text \<open>
  The error class \<^verbatim>\<open>NotFound\<close> of the spec: no commit resolves for the id, or the commit
  that resolves is not a record. The code throws an \<^verbatim>\<open>Error\<close> with one of two messages.
\<close>

definition NotFound :: "exn \<Rightarrow> bool" where
  "NotFound e = (e = Error ''Commit Not Found'' \<or> e = Error ''Commit is not a Redirect'')"

text \<open>The record the read path gives for \<open>commit_C\<close> in the sample store.\<close>

definition record_C :: jsobject where
  "record_C =
     [(''id'', JStr ''x''),
      (''shortId'', JStr (sample_base58_encode (from_hex ''c0ff''))),
      (''shortUrl'', JStr (''https://sho.rt/'' @ sample_base58_encode (from_hex ''c0ff''))),
      (''description'', JStr ''third''),
      (''created'', JDate 6600000),
      (''creator'', JStr ''Ada''),
      (''url'', JStr ''http://example.com/c'')]"

text \<open>The commits behind what the loop of \<^verbatim>\<open>all\<close> yields for a list of ids.\<close>

fun yielded_commits :: "libs \<Rightarrow> Repository \<Rightarrow> repo \<Rightarrow> string list \<Rightarrow> commit list" where
  "yielded_commits L this r [] = []"
| "yielded_commits L this r (i # ids) =
     (case getCommit r i of
        Inl e \<Rightarrow> yielded_commits L this r ids
      | Inr c \<Rightarrow>
          (case formatRedirectCommit L this r c of
             Inl e \<Rightarrow> yielded_commits L this r ids
           | Inr record \<Rightarrow> c # yielded_commits L this r ids))"

text \<open>The creation time \<^verbatim>\<open>_formatRedirectCommit\<close> derives for a commit, in milliseconds.\<close>

definition created_of :: "commit \<Rightarrow> int" where
  "created_of c = (sig_time (author c) + sig_offset (author c) * 60) * 1000"

text \<open>The records the read path gives for \<open>commit_A\<close> and \<open>commit_B\<close> in the sample store.\<close>

definition record_A :: jsobject where
  "record_A =
     [(''id'', JStr (sample_base58_encode (from_hex (commit_id commit_A)))),
      (''shortId'', JStr (sample_base58_encode (from_hex ''abcd''))),
      (''shortUrl'', JStr (''https://sho.rt/'' @ sample_base58_encode (from_hex ''abcd''))),
      (''description'', JStr ''first''),
      (''created'', JDate 4600000),
      (''creator'', JStr ''Ada''),
      (''url'', JStr ''http://example.com/a'')]"

definition record_B :: jsobject where
  "record_B =
     [(''id'', JStr (sample_base58_encode (from_hex (commit_id commit_B)))),
      (''shortId'', JStr (sample_base58_encode (from_hex ''abcd20''))),
      (''shortUrl'', JStr (''https://sho.rt/'' @ sample_base58_encode (from_hex ''abcd20''))),
      (''description'', JStr ''second''),
      (''created'', JDate (- 1600000)),
      (''creator'', JStr ''Bob''),
      (''url'', JStr ''http://example.com/b'')]"

fun is_push :: "remote_op \<Rightarrow> bool" where
  "is_push (OpPush specs) = True"
| "is_push (OpFetch specs) = False"
| "is_push (OpMergeBranches ours theirs) = False"

text \<open>
  A sample store behind its remote: since the last exchange another clone has pushed a
  commit, which the remote's branch now points to and the local history does not hold.
  The second library fetches the remote's branch into the remote-tracking branch,
  whatever refspec it is given.
\<close>

definition commit_R :: commit where
  "commit_R =
     \<lparr>commit_id = ''fedcba0000000000000000000000000000000000'',
      message = ''---'' @ [CHR 0x0A] @ ''url: http://example.com/r'' @ [CHR 0x0A] @ ''---''
                @ [CHR 0x0A] @ ''remote'',
      author = sample_signature\<lparr>sig_time := 3500\<rparr>, commit_time = 3500,
      parents = [''c0ffee0000000000000000000000000000000000'']\<rparr>"

definition diverged_repo :: repo where
  "diverged_repo =
     sample_repo
       \<lparr>odb := odb sample_repo @ [CommitObj commit_R],
        remote_refs := [''refs/heads/master'' \<mapsto> commit_id commit_R]\<rparr>"

definition tracking_libs :: libs where
  "tracking_libs =
     sample_libs
       \<lparr>remote_fetch :=
          (\<lambda>r url specs.
             sample_remote_fetch r url [''refs/heads/master:refs/remotes/origin/master''])\<rparr>"

text \<open>
  The parts of the argument of \<^verbatim>\<open>create\<close> as its parameter list takes them apart, and the
  commit message it builds from them.
\<close>

definition create_extra :: "jsobject \<Rightarrow> jsobject" where
  "create_extra args = filter (\<lambda>(k, v). k \<notin> {''url'', ''description'', ''shouldCommit''}) args"

definition create_metadata :: "jsobject \<Rightarrow> jsobject" where
  "create_metadata args = spread [(''url'', get_prop args ''url'')] (create_extra args)"

definition create_description :: "jsobject \<Rightarrow> jsval" where
  "create_description args =
     (if js_truthy (get_prop args ''description'') then get_prop args ''description''
      else JStr [])"

definition create_shouldCommit :: "jsobject \<Rightarrow> jsval" where
  "create_shouldCommit args =
     (case get_prop args ''shouldCommit'' of JUndefined \<Rightarrow> JBool True | v \<Rightarrow> v)"

definition create_message :: "libs \<Rightarrow> jsobject \<Rightarrow> string" where
  "create_message L args =
     ''---'' @ [CHR 0x0A] @ YAML_stringify L (create_metadata args) @ ''---'' @ [CHR 0x0A]
     @ ToString L (create_description args)"

text \<open>
  Sample arguments of \<^verbatim>\<open>create\<close>, the commit the sample store gets for the first of them,
  and the store with that commit. In \<open>topic_repo\<close> another branch is checked out.
\<close>

definition args_N :: jsobject where
  "args_N = [(''url'', JStr ''http://example.com/n''), (''shouldCommit'', JBool False)]"

definition commit_N :: commit where
  "commit_N =
     \<lparr>commit_id = ''8822010000000000000000000000000000000000'',
      message = ''---'' @ [CHR 0x0A] @ ''url: http://example.com/n'' @ [CHR 0x0A] @ ''---''
                @ [CHR 0x0A],
      author = sample_signature\<lparr>sig_time := 5000\<rparr>, commit_time = 5000,
      parents = [''0123450000000000000000000000000000000000'']\<rparr>"

definition repo_N :: repo where
  "repo_N =
     sample_repo
       \<lparr>odb := odb sample_repo @ [CommitObj commit_N],
        refs := (refs sample_repo)(''master'' \<mapsto> (True, commit_id commit_N))\<rparr>"

definition topic_repo :: repo where
  "topic_repo = sample_repo\<lparr>HEAD := ''topic''\<rparr>"






definition repo_with :: "commit \<Rightarrow> repo" where
  "repo_with c =
     sample_repo
       \<lparr>odb := odb sample_repo @ [CommitObj c],
        refs := (refs sample_repo)
                  (''master'' \<mapsto> (True, commit_id c),
                   ''refs/remotes/origin/master'' \<mapsto> (False, commit_id c)),
        remote_refs := [''refs/heads/master'' \<mapsto> commit_id c]\<rparr>"

text \<open>Whether the loop of \<^verbatim>\<open>all\<close> yields a record for an id.\<close>

definition is_record :: "libs \<Rightarrow> Repository \<Rightarrow> repo \<Rightarrow> string \<Rightarrow> bool" where
  "is_record L this r i =
     (case getCommit r i of
        Inl e \<Rightarrow> False
      | Inr c \<Rightarrow>
          (case formatRedirectCommit L this r c of
             Inl e \<Rightarrow> False
           | Inr record \<Rightarrow> True))"

text \<open>
  A commit whose message lacks a valid \<^verbatim>\<open>url\<close> key: its header does not parse, or the
  data read from it hold no \<^verbatim>\<open>url\<close> that \<^verbatim>\<open>isValidURL\<close> accepts.
\<close>

definition lacks_valid_url :: "libs \<Rightarrow> commit \<Rightarrow> bool" where
  "lacks_valid_url L c =
     (case matter L (trim (message c)) of
        Inl e \<Rightarrow> True
      | Inr (description, data) \<Rightarrow> isValidURL L (get_prop data ''url'') \<noteq> Inr True)"

text \<open>A sample commit whose header does not parse.\<close>

definition commit_U :: commit where
  "commit_U =
     \<lparr>commit_id = ''8eef000000000000000000000000000000000000'',
      message = ''---'' @ [CHR 0x0A] @ ''url: http://example.com/u'' @ [CHR 0x0A] @ ''oops''
                @ [CHR 0x0A] @ ''---'' @ [CHR 0x0A] @ ''broken'',
      author = sample_signature\<lparr>sig_time := 5000\<rparr>, commit_time = 5000,
      parents = [''0123450000000000000000000000000000000000'']\<rparr>"




section \<open>Properties\<close>

subsection \<open>Strings and hexadecimal\<close>

lemma lower_hex_is_hex: "is_lower_hex c \<Longrightarrow> is_hex_char c"
  by (auto simp: is_lower_hex_def is_hex_char_def)

lemma lower_hex_chars:
  "\<forall>c \<in> set ''0123456789abcdef''. toLowerCase_char c = c \<and> \<not> is_whitespace c \<and> c \<noteq> CHR 0x0A"
  by (simp add: toLowerCase_char_def is_whitespace_def)

lemma lower_hex_toLowerCase_char: "is_lower_hex c \<Longrightarrow> toLowerCase_char c = c"
  using lower_hex_chars unfolding is_lower_hex_def by blast

lemma lower_hex_not_ws: "is_lower_hex c \<Longrightarrow> \<not> is_whitespace c \<and> c \<noteq> CHR 0x0A"
  using lower_hex_chars unfolding is_lower_hex_def by blast

lemma lower_hex_toLowerCase: "list_all is_lower_hex s \<Longrightarrow> toLowerCase s = s"
  by (induction s) (auto simp: toLowerCase_def lower_hex_toLowerCase_char)

lemma split_lines_no_newline: "CHR 0x0A \<notin> set x \<Longrightarrow> split_lines x = [x]"
  by (induction x) auto

lemma split_lines_append:
  "CHR 0x0A \<notin> set x \<Longrightarrow> split_lines (x @ CHR 0x0A # rest) = x # split_lines rest"
  by (induction x) auto

lemma split_lines_unlines_snoc:
  "\<forall>x \<in> set xs. CHR 0x0A \<notin> set x \<Longrightarrow> CHR 0x0A \<notin> set y \<Longrightarrow>
   split_lines (unlines xs @ y) = xs @ [y]"
  by (induction xs) (auto simp: unlines_def split_lines_no_newline split_lines_append)

lemma dropWhile_ws_start:
  "s \<noteq> [] \<Longrightarrow> \<not> is_whitespace (hd s) \<Longrightarrow> dropWhile is_whitespace (s @ t) = s @ t"
  by (cases s) auto

lemma trim_unlines_snoc:
  assumes "\<forall>x \<in> set (xs @ [y]). x \<noteq> [] \<and> list_all is_lower_hex x"
  shows "trim (unlines (xs @ [y])) = unlines xs @ y"
proof -
  have y: "y \<noteq> []" "list_all is_lower_hex y" using assms by auto
  have nws_last: "\<not> is_whitespace (last y)"
    using y lower_hex_not_ws by (metis last_in_set list_all_iff)
  have start: "dropWhile is_whitespace (unlines (xs @ [y])) = unlines (xs @ [y])"
  proof (cases xs)
    case Nil
    have "\<not> is_whitespace (hd y)" using y lower_hex_not_ws by (metis hd_in_set list_all_iff)
    then show ?thesis using Nil y by (cases y) (auto simp: unlines_def)
  next
    case (Cons x xs')
    have x: "x \<noteq> []" "list_all is_lower_hex x" using assms Cons by auto
    have "\<not> is_whitespace (hd x)" using x lower_hex_not_ws by (metis hd_in_set list_all_iff)
    then show ?thesis using Cons x by (cases x) (auto simp: unlines_def)
  qed
  have "rev (unlines (xs @ [y])) = CHR 0x0A # rev y @ rev (unlines xs)"
    by (simp add: unlines_def)
  moreover have "is_whitespace (CHR 0x0A)" by (simp add: is_whitespace_def)
  moreover have "dropWhile is_whitespace (rev y @ rev (unlines xs)) = rev y @ rev (unlines xs)"
    using y nws_last by (intro dropWhile_ws_start) (auto simp: hd_rev)
  ultimately have "dropWhile is_whitespace (rev (unlines (xs @ [y]))) = rev y @ rev (unlines xs)"
    by simp
  then show ?thesis unfolding trim_def start by simp
qed

lemma split_trim_unlines:
  assumes "\<forall>x \<in> set xs. x \<noteq> [] \<and> list_all is_lower_hex x" "xs \<noteq> []"
  shows "split_lines (trim (unlines xs)) = xs"
proof -
  obtain ys y where xs: "xs = ys @ [y]" using assms(2) by (metis rev_exhaust)
  have nl: "\<forall>x \<in> set xs. CHR 0x0A \<notin> set x"
    using assms(1) lower_hex_not_ws by (metis list_all_iff)
  have "trim (unlines xs) = unlines ys @ y" using trim_unlines_snoc assms(1) xs by blast
  then show ?thesis using split_lines_unlines_snoc [of ys y] nl xs by auto
qed

lemma split_trim_unlines_Nil: "split_lines (trim (unlines [])) = [[]]"
  by (simp add: unlines_def trim_def)

subsection \<open>The resolver on a well-formed store\<close>

lemma find_object_id:
  "distinct (map object_id obs) \<Longrightarrow> ob \<in> set obs \<Longrightarrow> find (\<lambda>x. object_id x = object_id ob) obs = Some ob"
  by (induction obs) (auto simp: rev_image_eqI)

lemma getCommit_in_odb:
  "distinct (map object_id (odb r)) \<Longrightarrow> ob \<in> set (odb r) \<Longrightarrow>
   getCommit r (object_id ob) = (case ob of CommitObj c \<Rightarrow> Inr c | OtherObj i \<Rightarrow> Inl (NodeGitError ENOTFOUND))"
  by (simp add: getCommit_def find_object_id split: gitobject.splits)

lemma getCommit_commit:
  "distinct (map object_id (odb r)) \<Longrightarrow> CommitObj c \<in> set (odb r) \<Longrightarrow> getCommit r (commit_id c) = Inr c"
  using getCommit_in_odb [of r "CommitObj c"] by simp

lemma getCommit_other:
  "distinct (map object_id (odb r)) \<Longrightarrow> OtherObj i \<in> set (odb r) \<Longrightarrow>
   getCommit r i = Inl (NodeGitError ENOTFOUND)"
  using getCommit_in_odb [of r "OtherObj i"] by simp

lemma first_commit_objects:
  "distinct (map object_id (odb r)) \<Longrightarrow> set obs \<subseteq> set (odb r) \<Longrightarrow>
   first_commit r (map object_id obs) = first_commit_obj obs"
  by (induction obs rule: first_commit_obj.induct) (auto simp: getCommit_commit getCommit_other)

lemma disambiguate_matching:
  assumes wf: "wf_odb r" and p: "list_all is_lower_hex p" "4 \<le> length p"
  shows "snd (disambigateCommit r p) = first_commit_obj (matching r p)"
proof -
  have m: "matches_hex4 p" using p lower_hex_is_hex by (auto simp: matches_hex4_def list_all_iff)
  have d: "distinct (map object_id (odb r))" using wf by (simp add: wf_odb_def)
  let ?ids = "map object_id (matching r p)"
  have out: "git_rev_parse_disambiguate r p = unlines ?ids"
    using p by (simp add: git_rev_parse_disambiguate_def unlines_def matching_def
        lower_hex_toLowerCase comp_def)
  have ids: "\<forall>x \<in> set ?ids. x \<noteq> [] \<and> list_all is_lower_hex x"
    using wf by (auto simp: wf_odb_def matching_def list_all_iff is_oid_def)
  show ?thesis
  proof (cases "matching r p = []")
    case True
    have "find (\<lambda>ob. object_id ob = []) (odb r) = None"
      using wf by (auto simp: find_None_iff wf_odb_def list_all_iff is_oid_def)
    then have "getCommit r [] = Inl (NodeGitError ENOTFOUND)" by (simp add: getCommit_def)
    then show ?thesis using m out True
      by (simp add: disambigateCommit_def Let_def split_trim_unlines_Nil)
  next
    case False
    then have "split_lines (trim (unlines ?ids)) = ?ids" using ids split_trim_unlines by simp
    then show ?thesis using m out d
      by (simp add: disambigateCommit_def Let_def first_commit_objects matching_def)
  qed
qed

lemma first_commit_obj_mem:
  "CommitObj c \<in> set obs \<Longrightarrow> \<exists>c'. first_commit_obj obs = Obj c' \<and> CommitObj c' \<in> set obs"
  by (induction obs rule: first_commit_obj.induct) auto

lemma Oid_fromString_lower:
  "list_all is_lower_hex p \<Longrightarrow> length p \<le> 40 \<Longrightarrow> Oid_fromString p = Inr p"
  by (auto simp: Oid_fromString_def lower_hex_toLowerCase list_all_iff lower_hex_is_hex)

lemma resolve_lower_hex:
  assumes "list_all is_lower_hex p" "4 \<le> length p" "length p \<le> 40" "wf_odb r"
  shows "getCommitFromShortCommitId r p =
     (case matching r p of
        [] \<Rightarrow> Inl (NodeGitError ENOTFOUND)
      | [CommitObj c] \<Rightarrow> Inr (Obj c)
      | [OtherObj i] \<Rightarrow> Inl (NodeGitError ENOTFOUND)
      | _ \<Rightarrow> Inr (first_commit_obj (matching r p)))"
  using assms disambiguate_matching [of r p]
  by (simp add: getCommitFromShortCommitId_def Oid_fromString_lower lookupPrefix_def matching_def
      split: list.splits gitobject.splits)

lemma take_oid_lower_hex:
  "is_oid i \<Longrightarrow> list_all is_lower_hex (take n i)"
  by (auto simp: is_oid_def list_all_iff dest: in_set_takeD)

lemma resolve_own_prefix:
  assumes wf: "wf_odb r" and c: "CommitObj c \<in> set (odb r)" and n: "4 \<le> n" "n \<le> 40"
  shows "\<exists>c'. getCommitFromShortCommitId r (take n (commit_id c)) = Inr (Obj c')
     \<and> CommitObj c' \<in> set (matching r (take n (commit_id c)))"
proof -
  let ?p = "take n (commit_id c)"
  have oid: "is_oid (commit_id c)" using wf c by (force simp: wf_odb_def list_all_iff)
  have p: "list_all is_lower_hex ?p" "4 \<le> length ?p" "length ?p \<le> 40"
    using oid n take_oid_lower_hex by (auto simp: is_oid_def)
  have mem: "CommitObj c \<in> set (matching r ?p)"
    using c by (simp add: matching_def take_is_prefix)
  obtain c' where c': "first_commit_obj (matching r ?p) = Obj c'" "CommitObj c' \<in> set (matching r ?p)"
    using first_commit_obj_mem [OF mem] by blast
  have "getCommitFromShortCommitId r ?p = Inr (first_commit_obj (matching r ?p))"
    using mem unfolding resolve_lower_hex [OF p wf]
    by (auto split: list.splits gitobject.splits)
  then show ?thesis using c' by simp
qed

lemma commit_id_inj:
  "wf_odb r \<Longrightarrow> CommitObj c \<in> set (odb r) \<Longrightarrow> CommitObj c' \<in> set (odb r) \<Longrightarrow>
   commit_id c' = commit_id c \<Longrightarrow> c' = c"
  using distinct_map [of object_id "odb r"]
  by (auto simp: wf_odb_def dest!: inj_onD [where x = "CommitObj c'" and y = "CommitObj c"])

lemma resolve_full_id:
  assumes wf: "wf_odb r" and c: "CommitObj c \<in> set (odb r)"
  shows "getCommitFromShortCommitId r (take 40 (commit_id c)) = Inr (Obj c)"
proof -
  obtain c' where c': "getCommitFromShortCommitId r (take 40 (commit_id c)) = Inr (Obj c')"
    "CommitObj c' \<in> set (matching r (take 40 (commit_id c)))"
    using resolve_own_prefix [OF wf c, of 40] by auto
  have "is_oid (commit_id c)" "is_oid (commit_id c')"
    using wf c c'(2) by (force simp: wf_odb_def list_all_iff matching_def)+
  then have "commit_id c' = commit_id c"
    using c'(2) by (auto simp: matching_def is_oid_def prefix_def)
  then have "c' = c" using commit_id_inj wf c c'(2) by (auto simp: matching_def)
  then show ?thesis using c'(1) by simp
qed

lemma getShortId_loop_spec:
  assumes wf: "wf_odb r" and c: "CommitObj c \<in> set (odb r)"
  shows "4 \<le> h \<Longrightarrow> h \<le> 40 \<Longrightarrow> even h \<Longrightarrow>
    \<exists>n. h \<le> n \<and> n \<le> 40 \<and> even n
      \<and> getShortId_loop L r (commit_id c) h
          = Inr (JStr (base58_encode L (from_hex (take n (commit_id c)))))
      \<and> getCommitFromShortCommitId r (take n (commit_id c)) = Inr (Obj c)
      \<and> (\<forall>m. h \<le> m \<and> m < n \<and> even m \<longrightarrow>
            getCommitFromShortCommitId r (take m (commit_id c)) \<noteq> Inr (Obj c))"
proof (induction "40 - h" arbitrary: h rule: less_induct)
  case less
  have len: "length (commit_id c) = 40" using wf c by (force simp: wf_odb_def list_all_iff is_oid_def)
  obtain c' where c': "getCommitFromShortCommitId r (take h (commit_id c)) = Inr (Obj c')"
    "CommitObj c' \<in> set (matching r (take h (commit_id c)))"
    using resolve_own_prefix [OF wf c, of h] less.prems by auto
  show ?case
  proof (cases "commit_id c' = commit_id c")
    case True
    then have "c' = c" using commit_id_inj wf c c'(2) by (auto simp: matching_def)
    then show ?thesis using c'(1) less.prems len
      by - (rule exI [of _ h], auto simp: getShortId_loop.simps [of L r "commit_id c" h])
  next
    case False
    then have ne: "getCommitFromShortCommitId r (take h (commit_id c)) \<noteq> Inr (Obj c)"
      using c'(1) by auto
    then have "h \<noteq> 40" using resolve_full_id [OF wf c] by auto
    then have h2: "h + 2 \<le> 40" using less.prems by presburger
    have step: "getShortId_loop L r (commit_id c) h = getShortId_loop L r (commit_id c) (h + 2)"
      using c'(1) False less.prems len by (simp add: getShortId_loop.simps [of L r "commit_id c" h])
    obtain n where n: "h + 2 \<le> n" "n \<le> 40" "even n"
      "getShortId_loop L r (commit_id c) (h + 2)
          = Inr (JStr (base58_encode L (from_hex (take n (commit_id c)))))"
      "getCommitFromShortCommitId r (take n (commit_id c)) = Inr (Obj c)"
      "\<forall>m. h + 2 \<le> m \<and> m < n \<and> even m \<longrightarrow>
            getCommitFromShortCommitId r (take m (commit_id c)) \<noteq> Inr (Obj c)"
    proof -
      have "40 - (h + 2) < 40 - h" "4 \<le> h + 2" "even (h + 2)" using h2 less.prems by auto
      from less.hyps [OF this(1,2) h2 this(3)] show ?thesis using that by blast
    qed
    have "\<forall>m. h \<le> m \<and> m < n \<and> even m \<longrightarrow>
            getCommitFromShortCommitId r (take m (commit_id c)) \<noteq> Inr (Obj c)"
    proof (intro allI impI)
      fix m assume m: "h \<le> m \<and> m < n \<and> even m"
      show "getCommitFromShortCommitId r (take m (commit_id c)) \<noteq> Inr (Obj c)"
      proof (cases "m = h")
        case True then show ?thesis using ne by simp
      next
        case False
        then have "h + 2 \<le> m" using m less.prems(3) by presburger
        then show ?thesis using n(6) m by blast
      qed
    qed
    then show ?thesis using n step by - (rule exI [of _ n], simp)
  qed
qed

lemma hex_chars:
  "\<forall>a \<in> set ''0123456789abcdef''. \<exists>x < 16. hex_value a = Some x \<and> hex_digit x = a"
  by (simp add: hex_value_def hex_digit_def)

lemma hex_char:
  "is_lower_hex a \<Longrightarrow> \<exists>x < 16. hex_value a = Some x \<and> hex_digit x = a"
  using hex_chars unfolding is_lower_hex_def by blast

lemma to_hex_Cons: "to_hex (b # bs) = hex_digit (b div 16 mod 16) # hex_digit (b mod 16) # to_hex bs"
  by (simp add: to_hex_def)

lemma to_hex_from_hex:
  "list_all is_lower_hex s \<Longrightarrow> even (length s) \<Longrightarrow> to_hex (from_hex s) = s \<and> (\<forall>b \<in> set (from_hex s). b < 256)"
proof (induction s rule: from_hex.induct)
  case (1 a b cs)
  obtain x where x: "x < 16" "hex_value a = Some x" "hex_digit x = a"
    using hex_char [of a] 1(2) by auto
  obtain y where y: "y < 16" "hex_value b = Some y" "hex_digit y = b"
    using hex_char [of b] 1(2) by auto
  have ih: "to_hex (from_hex cs) = cs \<and> (\<forall>b \<in> set (from_hex cs). b < 256)"
    using 1 x y by simp
  have "(16 * x + y) div 16 mod 16 = x" "(16 * x + y) mod 16 = y" "16 * x + y < 256"
    using x(1) y(1) by auto
  then show ?case using x y ih by (simp add: to_hex_Cons)
qed (simp_all add: to_hex_def)

lemma getShortId_search:
  assumes "wf_odb r" and "CommitObj c \<in> set (odb r)"
  shows "\<exists>n. 4 \<le> n \<and> n \<le> length (commit_id c) \<and> even n
      \<and> getShortId L r c MINIMUM_HASH
          = Inr (JStr (base58_encode L (from_hex (take n (commit_id c)))))
      \<and> getCommitFromShortCommitId r (take n (commit_id c)) = Inr (Obj c)
      \<and> (\<forall>m. m < n \<and> even m \<longrightarrow>
            getCommitFromShortCommitId r (take m (commit_id c)) \<noteq> Inr (Obj c))"
proof -
  have len: "length (commit_id c) = 40"
    using assms by (force simp: wf_odb_def list_all_iff is_oid_def)
  obtain n where n: "4 \<le> n" "n \<le> 40" "even n"
    "getShortId_loop L r (commit_id c) 4
       = Inr (JStr (base58_encode L (from_hex (take n (commit_id c)))))"
    "getCommitFromShortCommitId r (take n (commit_id c)) = Inr (Obj c)"
    "\<forall>m. 4 \<le> m \<and> m < n \<and> even m \<longrightarrow>
       getCommitFromShortCommitId r (take m (commit_id c)) \<noteq> Inr (Obj c)"
    using getShortId_loop_spec [OF assms, of 4 L] by auto
  have short: "getCommitFromShortCommitId r (take m (commit_id c)) \<noteq> Inr (Obj c)" if "m < 4" for m
  proof -
    have "length (take m (commit_id c)) < 4" using that by simp
    then show ?thesis
      by (auto simp: getCommitFromShortCommitId_def lookupPrefix_def disambigateCommit_def
          matches_hex4_def split: sum.splits)
  qed
  have "\<forall>m. m < n \<and> even m \<longrightarrow>
       getCommitFromShortCommitId r (take m (commit_id c)) \<noteq> Inr (Obj c)"
    using n(6) short by (metis not_le_imp_less)
  then show ?thesis using n len by (auto simp: getShortId_def MINIMUM_HASH_def)
qed

lemma lookup_id_encoded_prefix:
  assumes wf: "wf_odb r" and c: "CommitObj c \<in> set (odb r)" and n: "even n" "n \<le> 40"
    and inv: "\<And>bs. \<forall>b \<in> set bs. b < 256 \<Longrightarrow> base58_decode L (base58_encode L bs) = Inr bs"
  shows "lookup_id L r (base58_encode L (from_hex (take n (commit_id c))))
         = getCommitFromShortCommitId r (take n (commit_id c))"
proof -
  let ?p = "take n (commit_id c)"
  have oid: "is_oid (commit_id c)" using wf c by (force simp: wf_odb_def list_all_iff)
  then have "list_all is_lower_hex ?p" "even (length ?p)"
    using n take_oid_lower_hex by (auto simp: is_oid_def min_def)
  then have "to_hex (from_hex ?p) = ?p" "\<forall>b \<in> set (from_hex ?p). b < 256"
    using to_hex_from_hex by blast+
  then show ?thesis using inv by (simp add: lookup_id_def)
qed

subsection \<open>Objects and the read path\<close>

lemma map_of_set_prop: "map_of (set_prop obj k v) = (map_of obj)(k \<mapsto> v)"
  by (induction obj) (auto simp: fun_eq_iff)

lemma get_prop_set_prop:
  "get_prop (set_prop obj k v) k' = (if k' = k then v else get_prop obj k')"
  by (simp add: get_prop_def map_of_set_prop)

lemma get_prop_spread_notin:
  "k \<notin> fst ` set data \<Longrightarrow> get_prop (spread base data) k = get_prop base k"
  unfolding spread_def
  by (induction data arbitrary: base) (auto simp: get_prop_set_prop)

lemma get_prop_spread_in:
  "distinct (map fst data) \<Longrightarrow> map_of data k = Some v \<Longrightarrow> get_prop (spread base data) k = v"
  unfolding spread_def
proof (induction data arbitrary: base)
  case Nil then show ?case by simp
next
  case (Cons p data)
  obtain k' v' where p: "p = (k', v')" by (cases p)
  show ?case
  proof (cases "k' = k")
    case True
    then have "k \<notin> fst ` set data" "v' = v" using Cons.prems p by auto
    then show ?thesis
      using get_prop_spread_notin [of k data "set_prop base k v"] p True
      by (simp add: spread_def get_prop_set_prop)
  next
    case False
    then show ?thesis using Cons p by simp
  qed
qed

lemma getShortId_full:
  assumes "wf_odb r" "CommitObj c \<in> set (odb r)"
  shows "getShortId L r c 40 = Inr (JStr (base58_encode L (from_hex (commit_id c))))"
proof -
  have len: "length (commit_id c) = 40"
    using assms by (force simp: wf_odb_def list_all_iff is_oid_def)
  obtain n where "40 \<le> n" "n \<le> 40"
    "getShortId_loop L r (commit_id c) 40
       = Inr (JStr (base58_encode L (from_hex (take n (commit_id c)))))"
    using getShortId_loop_spec [OF assms, of 40 L] by auto
  then show ?thesis using len by (simp add: getShortId_def)
qed

lemma formatRedirectCommit_not_redirect:
  assumes "matter L (trim (message c)) = Inr (description, data)"
    and "isValidURL L (get_prop data ''url'') = Inr False"
  shows "formatRedirectCommit L this r c = Inl (Error ''Commit is not a Redirect'')"
  using assms by (simp add: formatRedirectCommit_def)

lemma formatRedirectCommit_redirect:
  assumes "wf_odb r" "CommitObj c \<in> set (odb r)"
    and "matter L (trim (message c)) = Inr (description, data)"
    and "isValidURL L (get_prop data ''url'') = Inr True"
    and "getShortId L r c MINIMUM_HASH = Inr shortId"
    and "getShortUrl L this r shortId = Inr shortUrl"
  shows "formatRedirectCommit L this r c =
     Inr (spread
       [(''id'', JStr (base58_encode L (from_hex (commit_id c)))), (''shortId'', shortId),
        (''shortUrl'', shortUrl), (''description'', JStr description),
        (''created'', JDate ((sig_time (author c) + sig_offset (author c) * 60) * 1000)),
        (''creator'', JStr (sig_name (author c)))]
       data)"
  using assms getShortId_full [OF assms(1,2), of L]
  by (simp add: formatRedirectCommit_def Let_def)

lemma formatRedirectCommit_Inr:
  assumes "formatRedirectCommit L this r c = Inr record"
  shows "\<exists>description data ident shortId shortUrl.
     matter L (trim (message c)) = Inr (description, data)
     \<and> isValidURL L (get_prop data ''url'') = Inr True
     \<and> getShortId L r c 40 = Inr ident
     \<and> record = spread
       [(''id'', ident), (''shortId'', shortId),
        (''shortUrl'', shortUrl), (''description'', JStr description),
        (''created'', JDate ((sig_time (author c) + sig_offset (author c) * 60) * 1000)),
        (''creator'', JStr (sig_name (author c)))]
       data"
  using assms
  by (auto simp: formatRedirectCommit_def Let_def split: sum.splits prod.splits if_splits)

lemma all_loop_yielded: "all_loop L this r ids = Inr (yielded L this r ids)"
proof (induction ids)
  case Nil
  then show ?case by (simp add: all_loop.simps [of _ _ _ "[]"] walker_next_def)
next
  case (Cons i ids)
  then show ?case
    by (simp add: all_loop.simps [of _ _ _ "i # ids"] walker_next_def split: sum.splits)
qed

lemma yielded_append:
  "yielded L this r (xs @ ys) = yielded L this r xs @ yielded L this r ys"
  by (induction xs) (auto split: sum.splits)

subsection \<open>The walker's order\<close>

lemma yielded_commits_format:
  "map (formatRedirectCommit L this r) (yielded_commits L this r ids)
     = map Inr (yielded L this r ids)"
  by (induction ids) (auto split: sum.splits)

lemma yielded_commits_mem:
  "c \<in> set (yielded_commits L this r ids) \<Longrightarrow> \<exists>i \<in> set ids. getCommit r i = Inr c"
  by (induction ids) (auto split: sum.splits)

lemma yielded_commits_sorted:
  "sorted (map (commit_time_of r) ids) \<Longrightarrow> sorted (map commit_time (yielded_commits L this r ids))"
proof (induction ids)
  case Nil then show ?case by simp
next
  case (Cons i ids)
  have "commit_time_of r i \<le> commit_time c" if h: "c \<in> set (yielded_commits L this r ids)" for c
  proof -
    obtain j where "j \<in> set ids" "getCommit r j = Inr c"
      using yielded_commits_mem [OF h] by blast
    then show ?thesis using Cons.prems by (auto simp: commit_time_of_def)
  qed
  then show ?case using Cons by (auto simp: commit_time_of_def split: sum.splits)
qed

lemma sorting_time_reverse_sorted:
  "sorted (map (f :: 'a \<Rightarrow> int) (rev (sort_key (\<lambda>i. - f i) ids)))"
proof -
  have "sorted (map (\<lambda>i. - f i) (sort_key (\<lambda>i. - f i) ids))" by (rule sorted_sort_key)
  then have "sorted_wrt (\<lambda>x y. f y \<le> f x) (sort_key (\<lambda>i. - f i) ids)"
    by (simp add: sorted_wrt_map)
  then show ?thesis by (simp add: rev_map [symmetric] sorted_wrt_rev sorted_wrt_map)
qed

lemma sorting_ascending:
  "sorted (map (commit_time_of r) (sorting r [SORT_TIME, SORT_REVERSE] ids))"
  using sorting_time_reverse_sorted [of "commit_time_of r" ids] by (simp add: sorting_def)

lemma Repository_all_unranged:
  assumes "Repository_all L this r JUndefined JUndefined = Inr records"
  shows "\<exists>latestCommit ids. getBranchCommit r (branch this) = Inr latestCommit
     \<and> walk r (Push (commit_id latestCommit)) = Inr ids
     \<and> all_loop L this r (sorting r [SORT_TIME, SORT_REVERSE] ids) = Inr records"
  using assms by (auto simp: Repository_all_def split: sum.splits)

subsection \<open>The stages of create\<close>

lemma getCommit_odb: "odb r' = odb r \<Longrightarrow> getCommit r' i = getCommit r i"
  by (simp add: getCommit_def)

lemma getCommit_update:
  "getCommit (r\<lparr>index_patches := n\<rparr>) i = getCommit r i"
  "getCommit (r\<lparr>state := s\<rparr>) i = getCommit r i"
  by (simp_all add: getCommit_def)

lemma getHeadCommit_update:
  "getHeadCommit (r\<lparr>index_patches := n\<rparr>) = getHeadCommit r"
  "getHeadCommit (r\<lparr>state := s\<rparr>) = getHeadCommit r"
  by (simp_all add: getHeadCommit_def getCommit_update split: option.splits)

lemma checkoutBranch_refs: "checkoutBranch r b = Inr r1 \<Longrightarrow> refs r1 = refs r \<and> odb r1 = odb r"
  by (auto simp: checkoutBranch_def split: option.splits if_splits sum.splits)


lemma checkoutBranch_branch:
  "refs r b = Some (True, t) \<Longrightarrow> getCommit r t = Inr c \<Longrightarrow> \<not> index_conflicts r \<Longrightarrow>
   checkoutBranch r b = Inr (r\<lparr>HEAD := b\<rparr>)"
  by (simp add: checkoutBranch_def)

lemma checkoutBranch_conflicts:
  "refs r b = Some (True, t) \<Longrightarrow> getCommit r t = Inr c \<Longrightarrow> index_conflicts r \<Longrightarrow>
   checkoutBranch r b = Inl (NodeGitError ECONFLICT)"
  by (simp add: checkoutBranch_def)

lemma checkoutBranch_other:
  "refs r b = Some (False, t) \<Longrightarrow> checkoutBranch r b = Inr r"
  by (simp add: checkoutBranch_def)

text \<open>
  The stages of \<^verbatim>\<open>create\<close>, one after the other. The test of the head commit is not among
  them: the promise it tests is an object whatever it resolves to, so its branch is
  never taken.
\<close>

lemma Repository_create_staged:
  "Repository_create L this r args =
     (case isValidURL L (get_prop args ''url'') of
        Inl e \<Rightarrow> (Inl e, r)
      | Inr valid \<Rightarrow>
          if \<not> valid then (Inl (Error ''A Valid URL is required.''), r)
          else
            (case checkoutBranch r (branch this) of
               Inl e \<Rightarrow> (Inl e, r)
             | Inr r1 \<Rightarrow>
                 if index_conflicts r1
                 then (Inl (Error ''Datatabase Repository has Conflicts, cannot proceed.''), r1)
                 else if hasStagedChanges r1
                 then (Inl (Error ''Datatabase Repository has Staged Changes, cannot proceed.''), r1)
                 else
                   (case stateCleanup L (state r1) of
                      Inl e \<Rightarrow> (Inl e, r1)
                    | Inr s2 \<Rightarrow>
                        if s2 \<noteq> NONE
                        then (Inl (Error ''Database Repository is in an invalid state.''),
                              r1\<lparr>state := s2\<rparr>)
                        else
                          (case createCommitOnHead L (r1\<lparr>state := s2\<rparr>) (default_signature r1)
                                  (default_signature r1) (create_message L args) of
                             (i, r3) \<Rightarrow>
                               (case getCommit r3 i of
                                  Inl e \<Rightarrow> (Inl e, r3)
                                | Inr c \<Rightarrow>
                                    (case (if js_truthy (create_shouldCommit args)
                                           then Repository_commit L this r3
                                           else ([], Inr (), r3)) of
                                       (ops, Inl e, r4) \<Rightarrow> (Inl e, r4)
                                     | (ops, Inr u, r4) \<Rightarrow>
                                         (formatRedirectCommit L this r4 c, r4)))))))"
  by (simp add: Repository_create_def Let_def create_message_def create_metadata_def
      create_extra_def create_description_def create_shouldCommit_def Promise_truthy_def
      split: sum.splits prod.splits)

lemma formatRedirectCommit_succeeds:
  assumes wf: "wf_odb r" and c: "CommitObj c \<in> set (odb r)"
    and m: "matter L (trim (message c)) = Inr (description, data)"
    and v: "isValidURL L (get_prop data ''url'') = Inr True"
    and u: "\<And>s. \<exists>shortUrl. getShortUrl L this r (JStr s) = Inr shortUrl"
  shows "\<exists>shortId shortUrl. formatRedirectCommit L this r c =
     Inr (spread
       [(''id'', JStr (base58_encode L (from_hex (commit_id c)))), (''shortId'', shortId),
        (''shortUrl'', shortUrl), (''description'', JStr description),
        (''created'', JDate ((sig_time (author c) + sig_offset (author c) * 60) * 1000)),
        (''creator'', JStr (sig_name (author c)))]
       data)"
proof -
  obtain n where "getShortId L r c MINIMUM_HASH
      = Inr (JStr (base58_encode L (from_hex (take n (commit_id c)))))"
    using getShortId_search [OF wf c, of L] by blast
  moreover obtain shortUrl where
    "getShortUrl L this r (JStr (base58_encode L (from_hex (take n (commit_id c))))) = Inr shortUrl"
    using u by blast
  ultimately show ?thesis
    using formatRedirectCommit_redirect [OF wf c m v] by blast
qed

subsection \<open>Create, then look up\<close>







lemma base58_encode_nonempty:
  assumes "\<And>bs. \<forall>x \<in> set bs. x < 256 \<Longrightarrow> base58_decode L (base58_encode L bs) = Inr bs"
    and "base58_decode L [] = Inr []"
    and "\<forall>x \<in> set bs. x < 256" "bs \<noteq> []"
  shows "base58_encode L bs \<noteq> []"
  using assms(1) [OF assms(3)] assms(2,4) by auto

lemma getCommit_id: "getCommit r i = Inr c \<Longrightarrow> commit_id c = i"
  by (auto simp: getCommit_def find_Some_iff split: option.splits gitobject.splits)

lemma yielded_commits_ids:
  "map commit_id (yielded_commits L this r ids) = filter (is_record L this r) ids"
  by (induction ids) (auto simp: is_record_def getCommit_id split: sum.splits)

lemma yielded_commits_get:
  "map (getCommit r) (map commit_id (yielded_commits L this r ids))
     = map Inr (yielded_commits L this r ids)"
  by (induction ids) (auto simp: getCommit_id split: sum.splits)

lemma created_pairwise:
  assumes "sorted (map commit_time cs)" "m < n" "n < length cs"
    and "sig_time (author (cs ! m)) = commit_time (cs ! m)"
    and "sig_time (author (cs ! n)) = commit_time (cs ! n)"
    and "sig_offset (author (cs ! m)) = sig_offset (author (cs ! n))"
  shows "created_of (cs ! m) \<le> created_of (cs ! n)"
proof -
  have "map commit_time cs ! m \<le> map commit_time cs ! n"
    using assms(1-3) by (intro sorted_nth_mono) simp_all
  then have "commit_time (cs ! m) \<le> commit_time (cs ! n)" using assms(2,3) by simp
  then show ?thesis using assms(4-6) by (simp add: created_of_def)
qed

lemma isValidURL_total: "isValidURL L url = Inr True \<or> isValidURL L url = Inr False"
  by (auto simp: isValidURL_def split: sum.splits)

lemma lacks_valid_url_format:
  assumes "lacks_valid_url L c"
  shows "formatRedirectCommit L this r c
     = (case matter L (trim (message c)) of
          Inl e \<Rightarrow> Inl e
        | Inr parsed \<Rightarrow> Inl (Error ''Commit is not a Redirect''))"
proof (cases "matter L (trim (message c))")
  case (Inl e)
  then show ?thesis by (simp add: formatRedirectCommit_def)
next
  case (Inr parsed)
  obtain description data where p: "parsed = (description, data)" by (cases parsed)
  then have "isValidURL L (get_prop data ''url'') = Inr False"
    using assms Inr isValidURL_total [of L "get_prop data ''url''"]
    by (auto simp: lacks_valid_url_def)
  then show ?thesis using Inr p by (simp add: formatRedirectCommit_def)
qed

lemma lookup_full_id:
  assumes wf: "wf_odb r" and c: "CommitObj c \<in> set (odb r)"
    and inv: "\<And>bs. \<forall>b \<in> set bs. b < 256 \<Longrightarrow> base58_decode L (base58_encode L bs) = Inr bs"
    and empty: "base58_decode L [] = Inr []"
  shows "lookup_id L r (base58_encode L (from_hex (commit_id c))) = Inr (Obj c)"
    and "base58_encode L (from_hex (commit_id c)) \<noteq> []"
proof -
  have oid: "is_oid (commit_id c)" using wf c by (force simp: wf_odb_def list_all_iff)
  then have hex: "to_hex (from_hex (commit_id c)) = commit_id c"
    "\<forall>x \<in> set (from_hex (commit_id c)). x < 256"
    using to_hex_from_hex [of "commit_id c"] by (auto simp: is_oid_def)
  have "from_hex (commit_id c) \<noteq> []"
    using hex(1) oid by (auto simp: is_oid_def to_hex_def)
  then show "base58_encode L (from_hex (commit_id c)) \<noteq> []"
    using base58_encode_nonempty [OF inv empty hex(2)] by simp
  have "lookup_id L r (base58_encode L (from_hex (commit_id c)))
      = getCommitFromShortCommitId r (take 40 (commit_id c))"
    using lookup_id_encoded_prefix [OF wf c _ _ inv, of 40] oid by (simp add: is_oid_def)
  then show "lookup_id L r (base58_encode L (from_hex (commit_id c))) = Inr (Obj c)"
    using resolve_full_id [OF wf c] by simp
qed

lemma checkoutBranch_state:
  "checkoutBranch (r\<lparr>state := s\<rparr>) b
     = (case checkoutBranch r b of Inl e \<Rightarrow> Inl e | Inr r1 \<Rightarrow> Inr (r1\<lparr>state := s\<rparr>))"
  by (simp add: checkoutBranch_def getCommit_update split: option.splits sum.splits)

lemma hasStagedChanges_state: "hasStagedChanges (r\<lparr>state := s\<rparr>) = hasStagedChanges r"
  by (simp add: hasStagedChanges_def getHeadCommit_update)

lemma Repository_create_state:
  assumes "isValidURL L (get_prop args ''url'') = Inr True"
    and "checkoutBranch r (branch this) = Inr r1"
    and "\<not> index_conflicts r1" "\<not> hasStagedChanges r1"
    and "stateCleanup L (state r1) = Inr NONE" "stateCleanup L NONE = Inr NONE"
  shows "Repository_create L this r args = Repository_create L this (r\<lparr>state := NONE\<rparr>) args"
proof -
  have c: "checkoutBranch (r\<lparr>state := NONE\<rparr>) (branch this) = Inr (r1\<lparr>state := NONE\<rparr>)"
    using assms(2) by (simp add: checkoutBranch_state)
  show ?thesis
    using assms
    by (simp add: Repository_create_staged [of L this r] c hasStagedChanges_state
        Repository_create_staged [of L this "r\<lparr>state := NONE\<rparr>"])
qed



subsection \<open>The sample collaborators\<close>

lemma sample_libs_sel [simp]:
  "URL_new sample_libs = sample_URL_new"
  "url_scheme sample_libs = sample_url_scheme"
  "base58_encode sample_libs = sample_base58_encode"
  "base58_decode sample_libs = sample_base58_decode"
  "matter sample_libs = sample_matter"
  "YAML_stringify sample_libs = sample_YAML_stringify"
  "path_join sample_libs = sample_path_join"
  "match_github sample_libs = (\<lambda>u. None)"
  "Number_toString sample_libs = show_int"
  "Date_toString sample_libs = show_int"
  "stateCleanup sample_libs = (\<lambda>s. Inr NONE)"
  "createCommit_id sample_libs = sample_createCommit_id"
  "remote_push sample_libs = sample_remote_push"
  "remote_fetch sample_libs = sample_remote_fetch"
  "mergeBranches sample_libs = sample_mergeBranches"
  by (simp_all add: sample_libs_def)

lemma sample_scheme_eval:
  "sample_scheme ''not-a-url'' = None"
  "sample_scheme ''HTTPS://example.com'' = Some ''HTTPS''"
  by (simp_all add: sample_scheme_def is_scheme_char_def)

lemma sample_wf: "wf_odb sample_repo"
  by (simp add: wf_odb_def sample_repo_def commit_A_def commit_B_def commit_C_def commit_M_def
      is_oid_def is_lower_hex_def)

lemma sample_members:
  "CommitObj commit_A \<in> set (odb sample_repo)" "CommitObj commit_B \<in> set (odb sample_repo)"
  "CommitObj commit_C \<in> set (odb sample_repo)" "CommitObj commit_M \<in> set (odb sample_repo)"
  by (simp_all add: sample_repo_def)

lemma sample_ids:
  "commit_id commit_A = ''abcd100000000000000000000000000000000000''"
  "commit_id commit_B = ''abcd200000000000000000000000000000000000''"
  "commit_id commit_C = ''c0ffee0000000000000000000000000000000000''"
  "commit_id commit_M = ''0123450000000000000000000000000000000000''"
  by (simp_all add: commit_A_def commit_B_def commit_C_def commit_M_def)

subsection \<open>Base 58 of the sample is invertible\<close>

lemma from_base_snoc: "from_base b (xs @ [d]) = from_base b xs * b + d"
  by (simp add: from_base_def)

lemma to_base_0: "to_base b 0 = []"
  by (simp add: to_base.simps)

lemma to_base_step: "0 < n \<Longrightarrow> 2 \<le> b \<Longrightarrow> to_base b n = to_base b (n div b) @ [n mod b]"
  by (subst to_base.simps) simp

lemma from_base_to_base: "2 \<le> b \<Longrightarrow> from_base b (to_base b n) = n"
proof (induction b n rule: to_base.induct)
  case (1 b n)
  show ?case
  proof (cases "n = 0")
    case True then show ?thesis by (simp add: to_base_0 from_base_def)
  next
    case False
    then show ?thesis using 1 by (simp add: to_base_step from_base_snoc)
  qed
qed

lemma to_base_digit: "2 \<le> b \<Longrightarrow> d \<in> set (to_base b n) \<Longrightarrow> d < b"
proof (induction b n rule: to_base.induct)
  case (1 b n)
  show ?case
  proof (cases "n = 0")
    case True then show ?thesis using 1 by (simp add: to_base_0)
  next
    case False
    then show ?thesis using 1 by (auto simp: to_base_step)
  qed
qed

lemma to_base_hd: "2 \<le> b \<Longrightarrow> to_base b n \<noteq> [] \<Longrightarrow> hd (to_base b n) \<noteq> 0"
proof (induction b n rule: to_base.induct)
  case (1 b n)
  show ?case
  proof (cases "n = 0")
    case True then show ?thesis using 1 by (simp add: to_base_0)
  next
    case False
    show ?thesis
    proof (cases "n div b = 0")
      case True
      then have "n < b" using 1(2) False by (simp add: div_eq_0_iff)
      then show ?thesis using False 1(2) True by (simp add: to_base_step to_base_0)
    next
      case d: False
      then have ne: "to_base b (n div b) \<noteq> []" using 1(2) by (simp add: to_base_step)
      then show ?thesis using 1 False by (simp add: to_base_step)
    qed
  qed
qed

lemma from_base_pos:
  "ds \<noteq> [] \<Longrightarrow> hd ds \<noteq> 0 \<Longrightarrow> 0 < b \<Longrightarrow> 0 < from_base b ds"
proof (induction ds rule: rev_induct)
  case Nil then show ?case by simp
next
  case (snoc d ds)
  show ?case
  proof (cases "ds = []")
    case True then show ?thesis using snoc by (simp add: from_base_def)
  next
    case False
    then have "0 < from_base b ds" using snoc by simp
    then show ?thesis using snoc(4) by (simp add: from_base_snoc)
  qed
qed

lemma to_base_from_base:
  "2 \<le> b \<Longrightarrow> \<forall>d \<in> set ds. d < b \<Longrightarrow> ds = [] \<or> hd ds \<noteq> 0 \<Longrightarrow> to_base b (from_base b ds) = ds"
proof (induction ds rule: rev_induct)
  case Nil then show ?case by (simp add: from_base_def to_base_0)
next
  case (snoc d ds)
  have d: "d < b" using snoc by simp
  show ?case
  proof (cases "ds = []")
    case True
    then have "d \<noteq> 0" using snoc by simp
    then show ?thesis using True d snoc(2) by (simp add: from_base_def to_base_step to_base_0)
  next
    case False
    then have hd: "hd ds \<noteq> 0" using snoc(4) by simp
    then have pos: "0 < from_base b ds" using from_base_pos False snoc(2) by simp
    have ih: "to_base b (from_base b ds) = ds" using snoc False hd by simp
    have "0 < from_base b ds * b + d" using pos snoc(2) by simp
    then show ?thesis using ih d snoc(2) by (simp add: from_base_snoc to_base_step)
  qed
qed

lemma from_base_zeros: "from_base b (replicate z 0 @ ds) = from_base b ds"
  by (induction z) (simp_all add: from_base_def)

lemma takeWhile_replicate_eq: "takeWhile (\<lambda>x. x = a) xs = replicate (length (takeWhile (\<lambda>x. x = a) xs)) a"
  by (induction xs) auto

lemma takeWhile_replicate_append:
  "takeWhile (\<lambda>x. x = a) (replicate n a @ ys) = replicate n a @ takeWhile (\<lambda>x. x = a) ys"
  by (induction n) simp_all

lemma split_leading:
  "xs = replicate (length (takeWhile (\<lambda>x. x = a) xs)) a @ dropWhile (\<lambda>x. x = a) xs"
  using takeWhile_dropWhile_id [of "\<lambda>x. x = a" xs] takeWhile_replicate_eq [of a xs] by simp

lemma dropWhile_hd: "dropWhile P xs = [] \<or> \<not> P (hd (dropWhile P xs))"
  by (metis hd_dropWhile)

lemma to_base_from_base_bytes:
  assumes "2 \<le> b" "\<forall>d \<in> set bs. d < b"
  shows "to_base b (from_base b bs) = dropWhile (\<lambda>x. x = 0) bs"
proof -
  let ?ds = "dropWhile (\<lambda>x. x = 0) bs"
  have "from_base b bs = from_base b ?ds"
    using split_leading [of bs 0] from_base_zeros [of b _ ?ds] by metis
  moreover have "\<forall>d \<in> set ?ds. d < b" using assms(2) by (meson set_dropWhileD)
  moreover have "?ds = [] \<or> hd ?ds \<noteq> 0" using dropWhile_hd [of "\<lambda>x. x = 0" bs] by simp
  ultimately show ?thesis using to_base_from_base assms(1) by simp
qed

lemma base58_alphabet_props:
  "length base58_alphabet = 58" "distinct base58_alphabet"
  by (simp_all add: base58_alphabet_def)

lemma base58_index_nth: "d < 58 \<Longrightarrow> base58_index (base58_alphabet ! d) = d"
  using map_of_zip_nth [of base58_alphabet "[0 ..< 58]" d] base58_alphabet_props
  by (simp add: base58_index_def)

lemma base58_nth_mem: "d < 58 \<Longrightarrow> base58_alphabet ! d \<in> set base58_alphabet"
  by (simp add: base58_alphabet_props)

lemma base58_nth_one: "d < 58 \<Longrightarrow> (base58_alphabet ! d = CHR ''1'') = (d = 0)"
proof -
  assume d: "d < 58"
  have "base58_alphabet ! 0 = CHR ''1''" by (simp add: base58_alphabet_def)
  then show ?thesis
    using d base58_alphabet_props nth_eq_iff_index_eq [of base58_alphabet d 0] by auto
qed

lemma base58_index_one: "base58_index (CHR ''1'') = 0"
proof -
  have "base58_alphabet ! 0 = CHR ''1''" by (simp add: base58_alphabet_def)
  then show ?thesis using base58_index_nth [of 0] by simp
qed

lemma sample_base58_roundtrip:
  assumes bytes: "\<forall>b \<in> set bs. b < 256"
  shows "sample_base58_decode (sample_base58_encode bs) = Inr bs"
proof -
  let ?z = "length (takeWhile (\<lambda>b. b = 0) bs)"
  let ?n = "from_base 256 bs"
  let ?ds = "to_base 58 ?n"
  let ?cs = "map (\<lambda>d. base58_alphabet ! d) ?ds"
  have enc: "sample_base58_encode bs = replicate ?z (CHR ''1'') @ ?cs"
    by (simp add: sample_base58_encode_def)
  have ds: "\<forall>d \<in> set ?ds. d < 58" using to_base_digit [of 58] by auto
  have ok: "list_all (\<lambda>c. c \<in> set base58_alphabet) (replicate ?z (CHR ''1'') @ ?cs)"
    using ds base58_nth_mem by (auto simp: list_all_iff base58_alphabet_def)
  have idx: "map base58_index ?cs = ?ds"
    using ds by (simp add: map_idI base58_index_nth comp_def)
  have val: "from_base 58 (map base58_index (replicate ?z (CHR ''1'') @ ?cs)) = ?n"
  proof -
    have m: "map base58_index (replicate ?z (CHR ''1'') @ ?cs) = replicate ?z 0 @ ?ds"
      using idx by (simp add: base58_index_one)
    have "from_base 58 (replicate ?z 0 @ ?ds) = ?n"
      using from_base_zeros [of 58 ?z ?ds] from_base_to_base [of 58 ?n] by simp
    then show ?thesis unfolding m .
  qed
  have lead: "takeWhile (\<lambda>c. c = CHR ''1'') (replicate ?z (CHR ''1'') @ ?cs) = replicate ?z (CHR ''1'')"
  proof (cases "?ds = []")
    case True then show ?thesis using takeWhile_replicate_append [of "CHR ''1''" ?z "[]"] by simp
  next
    case False
    then have "hd ?ds \<noteq> 0" using to_base_hd [of 58 ?n] by simp
    moreover have "hd ?ds < 58" using ds False by simp
    ultimately have "hd ?cs \<noteq> CHR ''1''" using False base58_nth_one by (simp add: hd_map)
    then have "takeWhile (\<lambda>c. c = CHR ''1'') ?cs = []" using False by (cases ?cs) auto
    then show ?thesis by (simp add: takeWhile_replicate_append)
  qed
  have "to_base 256 ?n = dropWhile (\<lambda>x. x = 0) bs"
    using to_base_from_base_bytes [of 256 bs] bytes by simp
  then have "replicate ?z 0 @ to_base 256 ?n = bs" using split_leading [of bs 0] by simp
  then show ?thesis using ok val lead unfolding enc by (simp add: sample_base58_decode_def)
qed

subsection \<open>The code on the sample store\<close>

lemma sample_matching_abcd:
  "matching sample_repo ''abcd'' = [CommitObj commit_A, CommitObj commit_B]"
  by (simp add: matching_def sample_repo_def sample_ids)

lemma sample_resolve_abcd:
  "getCommitFromShortCommitId sample_repo ''abcd'' = Inr (Obj commit_A)"
  using resolve_lower_hex [of "''abcd''" sample_repo] sample_wf
  by (simp add: sample_matching_abcd is_lower_hex_def)

lemma sample_encode_abcd: "sample_base58_encode (from_hex ''abcd'') = ''E5J''"
  by (simp add: sample_base58_encode_def hex_value_def from_base_def to_base_step to_base_0
      base58_alphabet_def)

lemma sample_decode_E5J: "sample_base58_decode ''E5J'' = Inr [171, 205]"
  by (simp add: sample_base58_decode_def base58_index_def base58_alphabet_def from_base_def
      to_base_step to_base_0 upt_rec)

lemma sample_matter_eval:
  "sample_matter (trim (message commit_A)) = Inr (''first'', [(''url'', JStr ''http://example.com/a'')])"
  "sample_matter (trim (message commit_B)) = Inr (''second'', [(''url'', JStr ''http://example.com/b'')])"
  "sample_matter (trim (message commit_C))
     = Inr (''third'', [(''url'', JStr ''http://example.com/c''), (''id'', JStr ''x'')])"
  "sample_matter (trim (message commit_M)) = Inr (''Merge branch master of example.com'', [])"
  by (simp_all add: commit_A_def commit_B_def commit_C_def commit_M_def trim_def is_whitespace_def
      sample_matter_def sample_header_line_def)

lemma sample_valid_eval:
  "isValidURL sample_libs (JStr ''http://example.com/a'') = Inr True"
  "isValidURL sample_libs (JStr ''http://example.com/b'') = Inr True"
  "isValidURL sample_libs (JStr ''http://example.com/c'') = Inr True"
  "isValidURL sample_libs JUndefined = Inr False"
  by (simp_all add: isValidURL_def isValidURL_try_def parse_protocol_def sample_URL_new_def
      sample_url_scheme_def sample_scheme_def is_scheme_char_def VALID_PROTOCOLS_def
      toLowerCase_def toLowerCase_char_def)

lemma sample_getShortUrl: 
  "getShortUrl sample_libs sample_Repository r (JStr s) = Inr (JStr (''https://sho.rt/'' @ s))"
  by (simp add: getShortUrl_def sample_Repository_def sample_path_join_def)

lemma sample_matching_c0ff: "matching sample_repo ''c0ff'' = [CommitObj commit_C]"
  by (simp add: matching_def sample_repo_def sample_ids)

lemma sample_resolve_c0ff:
  "getCommitFromShortCommitId sample_repo ''c0ff'' = Inr (Obj commit_C)"
  using resolve_lower_hex [of "''c0ff''" sample_repo] sample_wf
  by (simp add: sample_matching_c0ff is_lower_hex_def)

lemma sample_shortId_C:
  "getShortId sample_libs sample_repo commit_C MINIMUM_HASH
     = Inr (JStr (sample_base58_encode (from_hex ''c0ff'')))"
  using sample_resolve_c0ff
  by (simp add: sample_ids getShortId_def MINIMUM_HASH_def getShortId_loop.simps [of _ _ _ 4])

lemma sample_format_C:
  "formatRedirectCommit sample_libs sample_Repository sample_repo commit_C = Inr record_C"
  using formatRedirectCommit_redirect [OF sample_wf sample_members(3), of sample_libs
      "''third''" "[(''url'', JStr ''http://example.com/c''), (''id'', JStr ''x'')]"
      "JStr (sample_base58_encode (from_hex ''c0ff''))" sample_Repository
      "JStr (''https://sho.rt/'' @ sample_base58_encode (from_hex ''c0ff''))"]
    sample_matter_eval(3) sample_valid_eval(3) sample_shortId_C sample_getShortUrl
  by (simp add: get_prop_def spread_def record_C_def commit_C_def sample_signature_def)

lemma sample_encode_0123: "sample_base58_encode (from_hex ''0123'') = ''62''"
  by (simp add: sample_base58_encode_def hex_value_def from_base_def to_base_step to_base_0
      base58_alphabet_def)

lemma sample_decode_62: "sample_base58_decode ''62'' = Inr [1, 35]"
  by (simp add: sample_base58_decode_def base58_index_def base58_alphabet_def from_base_def
      to_base_step to_base_0 upt_rec)

lemma sample_matching_0123: "matching sample_repo ''0123'' = [CommitObj commit_M]"
  by (simp add: matching_def sample_repo_def sample_ids)

lemma sample_resolve_0123:
  "getCommitFromShortCommitId sample_repo ''0123'' = Inr (Obj commit_M)"
  using resolve_lower_hex [of "''0123''" sample_repo] sample_wf
  by (simp add: sample_matching_0123 is_lower_hex_def)

lemma sample_lookup_62: "lookup_id sample_libs sample_repo ''62'' = Inr (Obj commit_M)"
  using sample_resolve_0123 sample_decode_62
  by (simp add: lookup_id_def to_hex_def hex_digit_def)

lemma sample_getCommit:
  "getCommit sample_repo (commit_id commit_A) = Inr commit_A"
  "getCommit sample_repo (commit_id commit_B) = Inr commit_B"
  "getCommit sample_repo (commit_id commit_C) = Inr commit_C"
  "getCommit sample_repo (commit_id commit_M) = Inr commit_M"
  using sample_wf sample_members by (simp_all add: getCommit_commit wf_odb_def)

lemma sample_shortId_A:
  "getShortId sample_libs sample_repo commit_A MINIMUM_HASH
     = Inr (JStr (sample_base58_encode (from_hex ''abcd'')))"
  using sample_resolve_abcd
  by (simp add: sample_ids getShortId_def MINIMUM_HASH_def getShortId_loop.simps [of _ _ _ 4])

lemma sample_matching_abcd20: "matching sample_repo ''abcd20'' = [CommitObj commit_B]"
  by (simp add: matching_def sample_repo_def sample_ids)

lemma sample_resolve_abcd20:
  "getCommitFromShortCommitId sample_repo ''abcd20'' = Inr (Obj commit_B)"
  using resolve_lower_hex [of "''abcd20''" sample_repo] sample_wf
  by (simp add: sample_matching_abcd20 is_lower_hex_def)

lemma sample_shortId_B:
  "getShortId sample_libs sample_repo commit_B MINIMUM_HASH
     = Inr (JStr (sample_base58_encode (from_hex ''abcd20'')))"
  using sample_resolve_abcd sample_resolve_abcd20
  by (simp add: sample_ids getShortId_def MINIMUM_HASH_def getShortId_loop.simps [of _ _ _ 4]
      getShortId_loop.simps [of _ _ _ 6])

lemma sample_format_A:
  "formatRedirectCommit sample_libs sample_Repository sample_repo commit_A = Inr record_A"
  using formatRedirectCommit_redirect [OF sample_wf sample_members(1), of sample_libs
      "''first''" "[(''url'', JStr ''http://example.com/a'')]"
      "JStr (sample_base58_encode (from_hex ''abcd''))" sample_Repository
      "JStr (''https://sho.rt/'' @ sample_base58_encode (from_hex ''abcd''))"]
    sample_matter_eval(1) sample_valid_eval(1) sample_shortId_A sample_getShortUrl
  by (simp add: get_prop_def spread_def record_A_def commit_A_def sample_signature_def)

lemma sample_format_B:
  "formatRedirectCommit sample_libs sample_Repository sample_repo commit_B = Inr record_B"
  using formatRedirectCommit_redirect [OF sample_wf sample_members(2), of sample_libs
      "''second''" "[(''url'', JStr ''http://example.com/b'')]"
      "JStr (sample_base58_encode (from_hex ''abcd20''))" sample_Repository
      "JStr (''https://sho.rt/'' @ sample_base58_encode (from_hex ''abcd20''))"]
    sample_matter_eval(2) sample_valid_eval(2) sample_shortId_B sample_getShortUrl
  by (simp add: get_prop_def spread_def record_B_def commit_B_def)

lemma sample_format_M:
  "formatRedirectCommit sample_libs sample_Repository sample_repo commit_M
     = Inl (Error ''Commit is not a Redirect'')"
  using formatRedirectCommit_not_redirect [of sample_libs commit_M _ "[]"]
    sample_matter_eval(4) sample_valid_eval(4)
  by (simp add: get_prop_def)

lemma sample_commit_times:
  "commit_time_of sample_repo (commit_id commit_A) = 1000"
  "commit_time_of sample_repo (commit_id commit_B) = 2000"
  "commit_time_of sample_repo (commit_id commit_C) = 3000"
  "commit_time_of sample_repo (commit_id commit_M) = 4000"
  by (simp_all add: commit_time_of_def sample_getCommit)
    (simp_all add: commit_A_def commit_B_def commit_C_def commit_M_def)

lemma sample_sorting:
  "sorting sample_repo [SORT_TIME, SORT_REVERSE]
     [commit_id commit_M, commit_id commit_C, commit_id commit_B, commit_id commit_A]
   = [commit_id commit_A, commit_id commit_B, commit_id commit_C, commit_id commit_M]"
  by (simp add: sorting_def sample_commit_times)

lemma sample_all:
  "Repository_all sample_libs sample_Repository sample_repo JUndefined JUndefined
     = Inr [record_A, record_B, record_C]"
proof -
  have b: "getBranchCommit sample_repo (branch sample_Repository) = Inr commit_M"
    using sample_getCommit(4) by (simp add: getBranchCommit_def sample_Repository_def sample_repo_def)
  have w: "walk sample_repo (Push (commit_id commit_M))
      = Inr [commit_id commit_M, commit_id commit_C, commit_id commit_B, commit_id commit_A]"
    by (simp add: sample_repo_def)
  have y: "yielded sample_libs sample_Repository sample_repo
      [commit_id commit_A, commit_id commit_B, commit_id commit_C, commit_id commit_M]
      = [record_A, record_B, record_C]"
    by (simp add: sample_getCommit sample_format_A sample_format_B sample_format_C sample_format_M)
  have "Repository_all sample_libs sample_Repository sample_repo JUndefined JUndefined
      = all_loop sample_libs sample_Repository sample_repo
          (sorting sample_repo [SORT_TIME, SORT_REVERSE]
            [commit_id commit_M, commit_id commit_C, commit_id commit_B, commit_id commit_A])"
    using b w by (simp add: Repository_all_def)
  then show ?thesis by (simp only: sample_sorting all_loop_yielded y)
qed

lemma sample_remote:
  "getRemote sample_repo (upstream sample_Repository) = Inr ''git@example.com:short/urls.git''"
  "getRemote diverged_repo (upstream sample_Repository) = Inr ''git@example.com:short/urls.git''"
  by (simp_all add: getRemote_def sample_repo_def diverged_repo_def sample_Repository_def)

lemma sample_specs:
  "[''refs/heads/'' @ branch sample_Repository @ '':refs/heads/'' @ branch sample_Repository]
     = [''refs/heads/master:refs/heads/master'']"
  "[''remotes/'' @ upstream sample_Repository @ ''/'' @ branch sample_Repository
      @ '':refs/head/'' @ branch sample_Repository]
     = [''remotes/origin/master:refs/head/master'']"
  "''refs/remotes/'' @ upstream sample_Repository @ ''/'' @ branch sample_Repository
     = ''refs/remotes/origin/master''"
  by (simp_all add: sample_Repository_def)

lemma diverged_push:
  "sample_remote_push diverged_repo u specs = Inl (NodeGitError ENONFASTFORWARD)"
  by (simp add: sample_remote_push_def diverged_repo_def sample_repo_def getCommit_def
      commit_A_def commit_B_def commit_C_def commit_M_def commit_R_def)

lemma diverged_fetch:
  "sample_remote_fetch diverged_repo u [''remotes/origin/master:refs/head/master'']
     = Inr diverged_repo"
  by (simp add: sample_remote_fetch_def sample_fetch_one_def refspec_src_def refspec_dst_def
      List.map_filter_def diverged_repo_def)

lemma diverged_merge:
  "sample_mergeBranches diverged_repo ''master'' ''refs/remotes/origin/master''
     = Inr diverged_repo"
  by (simp add: sample_mergeBranches_def diverged_repo_def sample_repo_def)

lemma diverged_tracking:
  "\<exists>r1 r2 r3.
      sample_remote_fetch diverged_repo u [''refs/heads/master:refs/remotes/origin/master'']
        = Inr r1
    \<and> refs r1 ''refs/remotes/origin/master'' = Some (False, commit_id commit_R)
    \<and> sample_mergeBranches r1 ''master'' ''refs/remotes/origin/master'' = Inr r2
    \<and> sample_remote_push r2 u specs = Inr r3"
proof -
  define r1 where
    "r1 = diverged_repo
       \<lparr>refs := (refs diverged_repo)
          (''refs/remotes/origin/master'' \<mapsto> (False, commit_id commit_R))\<rparr>"
  define c where
    "c = \<lparr>commit_id = sample_createCommit_id [commit_id commit_M, commit_id commit_R]
                        (default_signature r1) (default_signature r1) ''Merge'',
          message = ''Merge'', author = default_signature r1,
          commit_time = sig_time (default_signature r1),
          parents = [commit_id commit_M, commit_id commit_R]\<rparr>"
  define r2 where
    "r2 = r1\<lparr>odb := odb r1 @ [CommitObj c], refs := (refs r1)(''master'' \<mapsto> (True, commit_id c))\<rparr>"
  have f: "sample_remote_fetch diverged_repo u [''refs/heads/master:refs/remotes/origin/master'']
      = Inr r1"
    by (simp add: sample_remote_fetch_def sample_fetch_one_def refspec_src_def refspec_dst_def
        List.map_filter_def diverged_repo_def r1_def)
  have t: "refs r1 ''refs/remotes/origin/master'' = Some (False, commit_id commit_R)"
    by (simp add: r1_def)
  have h: "refs r1 ''master'' = Some (True, commit_id commit_M)"
    "getCommit r1 (commit_id commit_M) = Inr commit_M"
    by (simp_all add: r1_def diverged_repo_def sample_repo_def getCommit_def
        commit_A_def commit_B_def commit_C_def commit_M_def)
  have m: "sample_mergeBranches r1 ''master'' ''refs/remotes/origin/master'' = Inr r2"
    using h t
    by (simp add: sample_mergeBranches_def Let_def r2_def c_def)
      (simp add: commit_M_def commit_R_def)
  have i: "commit_id c = ''8805020000000000000000000000000000000000''"
    by (simp add: c_def r1_def diverged_repo_def sample_repo_def sample_createCommit_id_def
        to_hex_def hex_digit_def sample_signature_def)
  have d: "distinct (map object_id (odb r2))"
    by (simp add: i r2_def r1_def diverged_repo_def sample_repo_def
        commit_A_def commit_B_def commit_C_def commit_M_def commit_R_def)
  have "CommitObj c \<in> set (odb r2)" by (simp add: r2_def)
  then have "getCommit r2 (commit_id c) = Inr c" using d by (rule getCommit_commit [rotated])
  then have "sample_remote_push r2 u specs
      = Inr (r2\<lparr>refs := (refs r2)(''refs/remotes/origin/master'' \<mapsto> (False, commit_id c)),
                remote_refs := (remote_refs r2)(''refs/heads/master'' \<mapsto> commit_id c)\<rparr>)"
    by (simp add: sample_remote_push_def)
      (simp add: r2_def r1_def diverged_repo_def c_def)
  then show ?thesis using f t m by blast
qed

lemma sample_valid_n: "isValidURL sample_libs (JStr ''http://example.com/n'') = Inr True"
  by (simp add: isValidURL_def isValidURL_try_def parse_protocol_def sample_URL_new_def
      sample_url_scheme_def sample_scheme_def is_scheme_char_def VALID_PROTOCOLS_def
      toLowerCase_def toLowerCase_char_def)

lemma sample_invalid: "isValidURL sample_libs (JStr ''not-a-url'') = Inr False"
  by (simp add: isValidURL_def isValidURL_try_def sample_URL_new_def sample_scheme_eval)

lemma sample_checkout:
  "checkoutBranch sample_repo ''master'' = Inr sample_repo"
  "checkoutBranch topic_repo ''master'' = Inr sample_repo"
  "checkoutBranch sample_repo ''nowhere'' = Inl (NodeGitError ENOTFOUND)"
proof -
  have g: "getCommit topic_repo (commit_id commit_M) = Inr commit_M"
    using sample_getCommit(4) by (simp add: getCommit_def topic_repo_def)
  have "checkoutBranch sample_repo ''master'' = Inr (sample_repo\<lparr>HEAD := ''master''\<rparr>)"
    by (rule checkoutBranch_branch [OF _ sample_getCommit(4)]) (simp_all add: sample_repo_def)
  then show "checkoutBranch sample_repo ''master'' = Inr sample_repo"
    by (simp add: sample_repo_def)
  have "checkoutBranch topic_repo ''master'' = Inr (topic_repo\<lparr>HEAD := ''master''\<rparr>)"
    by (rule checkoutBranch_branch [OF _ g]) (simp_all add: topic_repo_def sample_repo_def)
  then show "checkoutBranch topic_repo ''master'' = Inr sample_repo"
    by (simp add: topic_repo_def sample_repo_def)
  show "checkoutBranch sample_repo ''nowhere'' = Inl (NodeGitError ENOTFOUND)"
    by (simp add: checkoutBranch_def sample_repo_def)
qed

lemma sample_head: "getHeadCommit sample_repo = Obj commit_M"
  using sample_getCommit(4) by (simp add: getHeadCommit_def) (simp add: sample_repo_def)

lemma sample_message_N: "create_message sample_libs args_N = message commit_N"
  by (simp add: create_message_def create_metadata_def create_extra_def create_description_def
      args_N_def get_prop_def spread_def sample_YAML_stringify_def commit_N_def)

lemma sample_createCommit_N:
  "createCommitOnHead sample_libs sample_repo (default_signature sample_repo)
     (default_signature sample_repo) (message commit_N) = (commit_id commit_N, repo_N)"
  using sample_head
  by (simp add: createCommitOnHead_def Let_def)
    (simp add: sample_repo_def repo_N_def commit_N_def commit_A_def commit_B_def commit_C_def
      commit_M_def sample_createCommit_id_def to_hex_def hex_digit_def sample_signature_def)

lemma repo_N_wf: "wf_odb repo_N"
  by (simp add: wf_odb_def repo_N_def sample_repo_def commit_A_def commit_B_def commit_C_def
      commit_M_def commit_N_def is_oid_def is_lower_hex_def)

lemma repo_N_member: "CommitObj commit_N \<in> set (odb repo_N)"
  by (simp add: repo_N_def)

lemma repo_N_getCommit: "getCommit repo_N (commit_id commit_N) = Inr commit_N"
  using repo_N_wf repo_N_member by (simp add: getCommit_commit wf_odb_def)

lemma sample_matter_N:
  "sample_matter (trim (message commit_N)) = Inr ([], [(''url'', JStr ''http://example.com/n'')])"
  by (simp add: commit_N_def trim_def is_whitespace_def sample_matter_def sample_header_line_def)

lemma sample_format_N:
  "\<exists>record. formatRedirectCommit sample_libs sample_Repository repo_N commit_N = Inr record"
  using formatRedirectCommit_succeeds [OF repo_N_wf repo_N_member, of sample_libs "[]"
      "[(''url'', JStr ''http://example.com/n'')]" sample_Repository]
    sample_matter_N sample_valid_n sample_getShortUrl
  by (auto simp: get_prop_def)

lemma sample_create_N:
  "Repository_create sample_libs sample_Repository sample_repo args_N
     = (formatRedirectCommit sample_libs sample_Repository repo_N commit_N, repo_N)"
  "Repository_create sample_libs sample_Repository topic_repo args_N
     = (formatRedirectCommit sample_libs sample_Repository repo_N commit_N, repo_N)"
  "Repository_create sample_libs sample_Repository (sample_repo\<lparr>state := MERGE\<rparr>) args_N
     = (formatRedirectCommit sample_libs sample_Repository repo_N commit_N, repo_N)"
proof -
  have u: "get_prop args_N ''url'' = JStr ''http://example.com/n''"
    "create_shouldCommit args_N = JBool False"
    by (simp_all add: args_N_def get_prop_def create_shouldCommit_def)
  have b: "branch sample_Repository = ''master''" by (simp add: sample_Repository_def)
  have s: "index_conflicts sample_repo = False" "hasStagedChanges sample_repo = False"
    "state sample_repo = NONE" "sample_repo\<lparr>state := NONE\<rparr> = sample_repo"
    using sample_head by (simp_all add: hasStagedChanges_def) (simp_all add: sample_repo_def)
  show "Repository_create sample_libs sample_Repository sample_repo args_N
     = (formatRedirectCommit sample_libs sample_Repository repo_N commit_N, repo_N)"
    by (simp add: Repository_create_staged u b sample_valid_n sample_checkout s sample_message_N
        sample_createCommit_N repo_N_getCommit)
  show "Repository_create sample_libs sample_Repository topic_repo args_N
     = (formatRedirectCommit sample_libs sample_Repository repo_N commit_N, repo_N)"
    by (simp add: Repository_create_staged u b sample_valid_n sample_checkout s sample_message_N
        sample_createCommit_N repo_N_getCommit)
  have "checkoutBranch (sample_repo\<lparr>state := MERGE\<rparr>) ''master''
      = Inr (sample_repo\<lparr>state := MERGE, HEAD := ''master''\<rparr>)"
    using sample_getCommit(4)
    by (intro checkoutBranch_branch [where c = commit_M])
      (simp_all add: getCommit_update, simp_all add: sample_repo_def)
  then have m: "checkoutBranch (sample_repo\<lparr>state := MERGE\<rparr>) ''master''
      = Inr (sample_repo\<lparr>state := MERGE\<rparr>)"
    "\<not> hasStagedChanges (sample_repo\<lparr>state := MERGE\<rparr>)"
    using sample_head by (simp_all add: hasStagedChanges_def getHeadCommit_update)
      (simp_all add: sample_repo_def)
  show "Repository_create sample_libs sample_Repository (sample_repo\<lparr>state := MERGE\<rparr>) args_N
     = (formatRedirectCommit sample_libs sample_Repository repo_N commit_N, repo_N)"
    by (simp add: Repository_create_staged u b sample_valid_n m s sample_message_N
        sample_createCommit_N repo_N_getCommit)
qed


lemma repo_with_commit:
  assumes "is_oid (commit_id c)" "hd (commit_id c) = CHR ''8''"
  shows "wf_odb (repo_with c)" "CommitObj c \<in> set (odb (repo_with c))"
    "getCommit (repo_with c) (commit_id c) = Inr c"
proof -
  have "commit_id c \<notin> set (map object_id (odb sample_repo))"
    using assms(2) by (auto simp: sample_repo_def sample_ids)
  then show wf: "wf_odb (repo_with c)"
    using sample_wf assms(1) by (simp add: wf_odb_def repo_with_def)
  show m: "CommitObj c \<in> set (odb (repo_with c))" by (simp add: repo_with_def)
  show "getCommit (repo_with c) (commit_id c) = Inr c"
    using wf m by (simp add: getCommit_commit wf_odb_def)
qed













lemma sample_decode_empty: "sample_base58_decode [] = Inr []"
  by (simp add: sample_base58_decode_def from_base_def to_base_0)



lemma sample_matter_U:
  "sample_matter (trim (message commit_U)) = Inl (LibraryError ''YAMLException'')"
  by (simp add: commit_U_def trim_def is_whitespace_def sample_matter_def)

lemma sample_oid_U: "is_oid (commit_id commit_U)" "hd (commit_id commit_U) = CHR ''8''"
  by (simp_all add: commit_U_def is_oid_def is_lower_hex_def)

lemma sample_lacks:
  "lacks_valid_url sample_libs commit_M" "lacks_valid_url sample_libs commit_U"
  using sample_matter_eval(4) sample_valid_eval(4) sample_matter_U
  by (simp_all add: lacks_valid_url_def get_prop_def)

lemma repo_with_sample:
  assumes "is_oid (commit_id c)" "hd (commit_id c) = CHR ''8''"
  shows "getCommit (repo_with c) (commit_id commit_A) = Inr commit_A"
    "getCommit (repo_with c) (commit_id commit_C) = Inr commit_C"
    "\<exists>record. formatRedirectCommit sample_libs sample_Repository (repo_with c) commit_A
       = Inr record"
    "\<exists>record. formatRedirectCommit sample_libs sample_Repository (repo_with c) commit_C
       = Inr record"
proof -
  note wf = repo_with_commit(1) [OF assms]
  have m: "CommitObj commit_A \<in> set (odb (repo_with c))"
    "CommitObj commit_C \<in> set (odb (repo_with c))"
    by (simp_all add: repo_with_def sample_repo_def)
  show "getCommit (repo_with c) (commit_id commit_A) = Inr commit_A"
    "getCommit (repo_with c) (commit_id commit_C) = Inr commit_C"
    using wf m by (simp_all add: getCommit_commit wf_odb_def)
  show "\<exists>record. formatRedirectCommit sample_libs sample_Repository (repo_with c) commit_A
       = Inr record"
    using formatRedirectCommit_succeeds [OF wf m(1), of sample_libs "''first''"
        "[(''url'', JStr ''http://example.com/a'')]" sample_Repository]
      sample_matter_eval(1) sample_valid_eval(1) sample_getShortUrl
    by (auto simp: get_prop_def)
  show "\<exists>record. formatRedirectCommit sample_libs sample_Repository (repo_with c) commit_C
       = Inr record"
    using formatRedirectCommit_succeeds [OF wf m(2), of sample_libs "''third''"
        "[(''url'', JStr ''http://example.com/c''), (''id'', JStr ''x'')]" sample_Repository]
      sample_matter_eval(3) sample_valid_eval(3) sample_getShortUrl
    by (auto simp: get_prop_def)
qed

lemma sample_lookup_U:
  "lookup_id sample_libs (repo_with commit_U)
     (sample_base58_encode (from_hex (commit_id commit_U))) = Inr (Obj commit_U)"
  "sample_base58_encode (from_hex (commit_id commit_U)) \<noteq> []"
  using lookup_full_id [OF repo_with_commit(1,2) [OF sample_oid_U], of sample_libs]
    sample_base58_roundtrip sample_decode_empty
  by simp_all

















subsection \<open>URL Validator\<close>

text \<open>
  C7: \<^verbatim>\<open>isValidURL\<close> never raises. It returns true exactly when the strict parse succeeds
  and the scheme, compared without regard to case, is http, https or ftp; input that fails
  to parse gives false.
\<close>

theorem isValidURL_spec:
  "(\<exists>b. isValidURL L url = Inr b)
   \<and> (isValidURL L url = Inr True \<longleftrightarrow>
        URL_new L url = Inr () \<and>
        (\<exists>s. url_scheme L url = Inr (Some s) \<and> toLowerCase s \<in> {''http'', ''https'', ''ftp''}))
   \<and> ((\<exists>e. URL_new L url = Inl e) \<longrightarrow> isValidURL L url = Inr False)"
  by (auto simp: isValidURL_def isValidURL_try_def parse_protocol_def VALID_PROTOCOLS_def
      toLowerCase_def toLowerCase_char_def split: sum.splits option.splits)

theorem isValidURL_spec_witness:
  "(\<exists>e. URL_new sample_libs (JStr ''not-a-url'') = Inl e)
   \<and> isValidURL sample_libs (JStr ''not-a-url'') = Inr False
   \<and> URL_new sample_libs (JStr ''HTTPS://example.com'') = Inr ()
   \<and> url_scheme sample_libs (JStr ''HTTPS://example.com'') = Inr (Some ''HTTPS'')
   \<and> toLowerCase ''HTTPS'' \<in> {''http'', ''https'', ''ftp''}
   \<and> isValidURL sample_libs (JStr ''HTTPS://example.com'') = Inr True"
  using isValidURL_spec [of sample_libs "JStr ''not-a-url''"]
    isValidURL_spec [of sample_libs "JStr ''HTTPS://example.com''"]
  by (simp add: sample_URL_new_def sample_url_scheme_def sample_scheme_eval
      toLowerCase_def toLowerCase_char_def)

subsection \<open>Commit Resolver\<close>

text \<open>
  C8: an input that is not purely hexadecimal, or is shorter than four characters, makes
  \<^verbatim>\<open>disambigateCommit\<close> return \<^verbatim>\<open>null\<close> with no process spawned; the process is spawned
  only for an input that passed the check.
\<close>

theorem disambigateCommit_rejects_before_exec:
  "(\<not> (list_all is_hex_char s \<and> 4 \<le> length s) \<longrightarrow> disambigateCommit r s = ([], Null))
   \<and> (list_all is_hex_char t \<and> 4 \<le> length t \<longrightarrow>
        fst (disambigateCommit r t) = [''git rev-parse --disambiguate='' @ t])"
  by (auto simp: disambigateCommit_def matches_hex4_def Let_def)

theorem disambigateCommit_rejects_before_exec_witness:
  "\<not> (list_all is_hex_char ''ab;ls'' \<and> 4 \<le> length ''ab;ls'')
   \<and> disambigateCommit sample_repo ''ab;ls'' = ([], Null)
   \<and> (list_all is_hex_char ''abcd'' \<and> 4 \<le> length ''abcd'')
   \<and> fst (disambigateCommit sample_repo ''abcd'') = [''git rev-parse --disambiguate=abcd'']"
  using disambigateCommit_rejects_before_exec [of "''ab;ls''" sample_repo "''abcd''"]
  by (simp add: is_hex_char_def)

subsection \<open>Identifier Engine\<close>

text \<open>
  C4: for a commit of a well-formed store, \<^verbatim>\<open>getShortId\<close> tries the prefixes of 4, 6, 8,
  ... hexadecimal characters and returns the base-58 encoding of the bytes of the first
  one the resolver maps to the commit itself. No shorter prefix of an even number of
  characters resolves to the commit, and the search ends at the full length of the id at
  the latest: the function returns a string, never \<^verbatim>\<open>undefined\<close> or an error.
\<close>

theorem getShortId_minimal_prefix:
  assumes "wf_odb r" and "CommitObj c \<in> set (odb r)"
  shows "\<exists>n. 4 \<le> n \<and> n \<le> length (commit_id c) \<and> even n
      \<and> getShortId L r c MINIMUM_HASH
          = Inr (JStr (base58_encode L (from_hex (take n (commit_id c)))))
      \<and> getCommitFromShortCommitId r (take n (commit_id c)) = Inr (Obj c)
      \<and> (\<forall>m. m < n \<and> even m \<longrightarrow>
            getCommitFromShortCommitId r (take m (commit_id c)) \<noteq> Inr (Obj c))"
  using assms by (rule getShortId_search)

theorem getShortId_minimal_prefix_witness:
  "wf_odb sample_repo \<and> CommitObj commit_B \<in> set (odb sample_repo)
   \<and> (\<exists>n. 4 \<le> n \<and> n \<le> length (commit_id commit_B) \<and> even n
      \<and> getShortId sample_libs sample_repo commit_B MINIMUM_HASH
          = Inr (JStr (base58_encode sample_libs (from_hex (take n (commit_id commit_B)))))
      \<and> getCommitFromShortCommitId sample_repo (take n (commit_id commit_B)) = Inr (Obj commit_B)
      \<and> (\<forall>m. m < n \<and> even m \<longrightarrow>
            getCommitFromShortCommitId sample_repo (take m (commit_id commit_B)) \<noteq> Inr (Obj commit_B)))"
proof -
  have m: "CommitObj commit_B \<in> set (odb sample_repo)" by (simp add: sample_repo_def)
  show ?thesis
    using getShortId_minimal_prefix [OF sample_wf m, of sample_libs] sample_wf m by blast
qed

text \<open>
  C1, as amended: of two commits of a well-formed store whose ids share their first four
  characters and differ at the fifth, each gets a short id encoding a prefix of an even
  number of at least four characters; a commit keeps the four-character prefix exactly
  when the resolver returns it for that prefix, which holds for at most one of the two,
  so at least one short id encodes six characters or more. Where base 58 decoding
  inverts encoding, decoding either short id and resolving it gives the record's own
  commit.
\<close>

theorem shortId_collision:
  assumes wf: "wf_odb r"
    and a: "CommitObj a \<in> set (odb r)" and b: "CommitObj b \<in> set (odb r)"
    and share: "take 4 (commit_id a) = take 4 (commit_id b)"
    and differ: "commit_id a ! 4 \<noteq> commit_id b ! 4"
    and inv: "\<And>bs. \<forall>x \<in> set bs. x < 256 \<Longrightarrow> base58_decode L (base58_encode L bs) = Inr bs"
  shows "\<exists>na nb. even na \<and> even nb \<and> 4 \<le> na \<and> 4 \<le> nb \<and> na \<le> 40 \<and> nb \<le> 40
      \<and> (6 \<le> na \<or> 6 \<le> nb)
      \<and> (na = 4 \<longleftrightarrow> getCommitFromShortCommitId r (take 4 (commit_id a)) = Inr (Obj a))
      \<and> (nb = 4 \<longleftrightarrow> getCommitFromShortCommitId r (take 4 (commit_id b)) = Inr (Obj b))
      \<and> getShortId L r a MINIMUM_HASH
          = Inr (JStr (base58_encode L (from_hex (take na (commit_id a)))))
      \<and> getShortId L r b MINIMUM_HASH
          = Inr (JStr (base58_encode L (from_hex (take nb (commit_id b)))))
      \<and> lookup_id L r (base58_encode L (from_hex (take na (commit_id a)))) = Inr (Obj a)
      \<and> lookup_id L r (base58_encode L (from_hex (take nb (commit_id b)))) = Inr (Obj b)"
proof -
  have len: "length (commit_id a) = 40" "length (commit_id b) = 40"
    using wf a b by (force simp: wf_odb_def list_all_iff is_oid_def)+
  obtain na where na: "4 \<le> na" "na \<le> 40" "even na"
    "getShortId L r a MINIMUM_HASH
       = Inr (JStr (base58_encode L (from_hex (take na (commit_id a)))))"
    "getCommitFromShortCommitId r (take na (commit_id a)) = Inr (Obj a)"
    "\<forall>m. m < na \<and> even m \<longrightarrow>
       getCommitFromShortCommitId r (take m (commit_id a)) \<noteq> Inr (Obj a)"
    using getShortId_search [OF wf a, of L] len by auto
  obtain nb where nb: "4 \<le> nb" "nb \<le> 40" "even nb"
    "getShortId L r b MINIMUM_HASH
       = Inr (JStr (base58_encode L (from_hex (take nb (commit_id b)))))"
    "getCommitFromShortCommitId r (take nb (commit_id b)) = Inr (Obj b)"
    "\<forall>m. m < nb \<and> even m \<longrightarrow>
       getCommitFromShortCommitId r (take m (commit_id b)) \<noteq> Inr (Obj b)"
    using getShortId_search [OF wf b, of L] len by auto
  have ne: "a \<noteq> b" using differ by auto
  have six: "6 \<le> na \<or> 6 \<le> nb"
  proof (rule ccontr)
    assume "\<not> (6 \<le> na \<or> 6 \<le> nb)"
    then have "na = 4" "nb = 4" using na(1,3) nb(1,3) by presburger+
    then have "Inr (Obj a) = (Inr (Obj b) :: exn + commit nullable)"
      using na(5) nb(5) share by simp
    then show False using ne by simp
  qed
  have a4: "na = 4 \<longleftrightarrow> getCommitFromShortCommitId r (take 4 (commit_id a)) = Inr (Obj a)"
    using na(1,5,6) by (metis even_numeral le_neq_implies_less)
  have b4: "nb = 4 \<longleftrightarrow> getCommitFromShortCommitId r (take 4 (commit_id b)) = Inr (Obj b)"
    using nb(1,5,6) by (metis even_numeral le_neq_implies_less)
  have la: "lookup_id L r (base58_encode L (from_hex (take na (commit_id a)))) = Inr (Obj a)"
    using lookup_id_encoded_prefix [OF wf a na(3,2) inv] na(5) by simp
  have lb: "lookup_id L r (base58_encode L (from_hex (take nb (commit_id b)))) = Inr (Obj b)"
    using lookup_id_encoded_prefix [OF wf b nb(3,2) inv] nb(5) by simp
  show ?thesis
    using na(1-4) nb(1-4) six a4 b4 la lb by blast
qed

theorem shortId_collision_witness:
  "wf_odb sample_repo
   \<and> CommitObj commit_A \<in> set (odb sample_repo) \<and> CommitObj commit_B \<in> set (odb sample_repo)
   \<and> take 4 (commit_id commit_A) = take 4 (commit_id commit_B)
   \<and> commit_id commit_A ! 4 \<noteq> commit_id commit_B ! 4
   \<and> (\<exists>na nb. (6 \<le> na \<or> 6 \<le> nb)
      \<and> getShortId sample_libs sample_repo commit_A MINIMUM_HASH
          = Inr (JStr (base58_encode sample_libs (from_hex (take na (commit_id commit_A)))))
      \<and> getShortId sample_libs sample_repo commit_B MINIMUM_HASH
          = Inr (JStr (base58_encode sample_libs (from_hex (take nb (commit_id commit_B)))))
      \<and> lookup_id sample_libs sample_repo
           (base58_encode sample_libs (from_hex (take na (commit_id commit_A)))) = Inr (Obj commit_A)
      \<and> lookup_id sample_libs sample_repo
           (base58_encode sample_libs (from_hex (take nb (commit_id commit_B)))) = Inr (Obj commit_B))"
proof -
  have share: "take 4 (commit_id commit_A) = take 4 (commit_id commit_B)"
    by (simp add: sample_ids)
  have differ: "commit_id commit_A ! 4 \<noteq> commit_id commit_B ! 4"
    by (simp add: sample_ids)
  have inv: "\<And>bs. \<forall>x \<in> set bs. x < 256 \<Longrightarrow>
      base58_decode sample_libs (base58_encode sample_libs bs) = Inr bs"
    using sample_base58_roundtrip by simp
  from shortId_collision [OF sample_wf sample_members(1,2) share differ inv]
  show ?thesis using sample_wf sample_members(1,2) share differ by blast
qed

text \<open>
  C1 as stated fails: in the sample store the disambiguation process lists
  \<open>commit_A\<close> first, so the resolver returns it for the shared prefix \<^verbatim>\<open>abcd\<close> and
  its short id encodes those four characters only.
\<close>

theorem shortId_collision_counterexample:
  "CommitObj commit_A \<in> set (odb sample_repo) \<and> CommitObj commit_B \<in> set (odb sample_repo)
   \<and> take 4 (commit_id commit_A) = take 4 (commit_id commit_B)
   \<and> commit_id commit_A ! 4 \<noteq> commit_id commit_B ! 4
   \<and> getShortId sample_libs sample_repo commit_A MINIMUM_HASH = Inr (JStr ''E5J'')
   \<and> base58_decode sample_libs ''E5J'' = Inr (from_hex ''abcd'')
   \<and> to_hex (from_hex ''abcd'') = ''abcd''
   \<and> length ''abcd'' < 6"
  using sample_resolve_abcd sample_encode_abcd sample_decode_E5J
  by (simp add: sample_members sample_ids getShortId_def MINIMUM_HASH_def
      getShortId_loop.simps [of _ _ _ 4] hex_value_def to_hex_def hex_digit_def)

subsection \<open>Record Codec\<close>

text \<open>
  C10: the parsed header is spread over the derived fields last, so whatever key the
  header holds, the record carries the header's value under it: in particular under
  \<^verbatim>\<open>id\<close>, \<^verbatim>\<open>shortId\<close>, \<^verbatim>\<open>shortUrl\<close>, \<^verbatim>\<open>description\<close>, \<^verbatim>\<open>created\<close> and
  \<^verbatim>\<open>creator\<close>. Without a header entry \<^verbatim>\<open>id\<close> the record's id is the base-58 encoding
  of the commit hash; with an entry \<^verbatim>\<open>id: x\<close>, for \<open>x\<close> other than that encoding, it differs
  from it.
\<close>

theorem header_overrides_derived:
  assumes "wf_odb r" and "CommitObj c \<in> set (odb r)"
    and "matter L (trim (message c)) = Inr (description, data)"
    and "distinct (map fst data)"
    and "formatRedirectCommit L this r c = Inr record"
  shows "(\<forall>k v. map_of data k = Some v \<longrightarrow> get_prop record k = v)
    \<and> (map_of data ''id'' = None \<longrightarrow>
          get_prop record ''id'' = JStr (base58_encode L (from_hex (commit_id c))))
    \<and> (\<forall>x. map_of data ''id'' = Some x \<and> x \<noteq> JStr (base58_encode L (from_hex (commit_id c)))
          \<longrightarrow> get_prop record ''id'' \<noteq> JStr (base58_encode L (from_hex (commit_id c))))"
proof -
  obtain ident shortId shortUrl where rec: "getShortId L r c 40 = Inr ident"
    "record = spread
       [(''id'', ident), (''shortId'', shortId),
        (''shortUrl'', shortUrl), (''description'', JStr description),
        (''created'', JDate ((sig_time (author c) + sig_offset (author c) * 60) * 1000)),
        (''creator'', JStr (sig_name (author c)))]
       data"
    using formatRedirectCommit_Inr [OF assms(5)] assms(3) by auto
  have ident: "ident = JStr (base58_encode L (from_hex (commit_id c)))"
    using rec(1) getShortId_full [OF assms(1,2), of L] by simp
  have over: "\<forall>k v. map_of data k = Some v \<longrightarrow> get_prop record k = v"
    using get_prop_spread_in [OF assms(4)] rec(2) by simp
  have "map_of data ''id'' = None \<Longrightarrow> ''id'' \<notin> fst ` set data"
    by (simp add: map_of_eq_None_iff)
  then have derived: "map_of data ''id'' = None \<longrightarrow>
      get_prop record ''id'' = JStr (base58_encode L (from_hex (commit_id c)))"
    using get_prop_spread_notin [of "''id''" data] rec(2) ident by (simp add: get_prop_def)
  show ?thesis using over derived by auto
qed

theorem header_overrides_derived_witness:
  "wf_odb sample_repo \<and> CommitObj commit_C \<in> set (odb sample_repo)
   \<and> matter sample_libs (trim (message commit_C))
       = Inr (''third'', [(''url'', JStr ''http://example.com/c''), (''id'', JStr ''x'')])
   \<and> distinct (map fst [(''url'', JStr ''http://example.com/c''), (''id'', JStr ''x'')])
   \<and> formatRedirectCommit sample_libs sample_Repository sample_repo commit_C = Inr record_C
   \<and> map_of [(''url'', JStr ''http://example.com/c''), (''id'', JStr ''x'')] ''id'' = Some (JStr ''x'')
   \<and> get_prop record_C ''id'' = JStr ''x''"
proof -
  have m: "matter sample_libs (trim (message commit_C))
       = Inr (''third'', [(''url'', JStr ''http://example.com/c''), (''id'', JStr ''x'')])"
    using sample_matter_eval(3) by simp
  have d: "distinct (map fst [(''url'', JStr ''http://example.com/c''), (''id'', JStr ''x'')])"
    by simp
  from header_overrides_derived [OF sample_wf sample_members(3) m d sample_format_C]
  show ?thesis using sample_wf sample_members(3) m sample_format_C by simp
qed

subsection \<open>History Walker\<close>

text \<open>
  C9, as amended: without range bounds, \<^verbatim>\<open>all\<close> pushes the tip of the tracked branch,
  asks the walker for the sorting \<^verbatim>\<open>TIME\<close>, \<^verbatim>\<open>REVERSE\<close> and yields one record for each
  id of the sorted walk that resolves to a commit of the store that formats, in the
  walker's order. The commit times of these commits are non-decreasing. The creation
  time a record shows is not the commit time but the author's time plus the author's
  offset; of two of these commits that were authored at their commit time with the same
  offset, the one yielded first has the earlier or the same creation time.
\<close>

theorem all_in_commit_time_order:
  assumes "Repository_all L this r JUndefined JUndefined = Inr records"
  shows "\<exists>latestCommit ids cs.
       getBranchCommit r (branch this) = Inr latestCommit
     \<and> walk r (Push (commit_id latestCommit)) = Inr ids
     \<and> map commit_id cs
         = filter (is_record L this r) (sorting r [SORT_TIME, SORT_REVERSE] ids)
     \<and> map (getCommit r) (map commit_id cs) = map Inr cs
     \<and> map (formatRedirectCommit L this r) cs = map Inr records
     \<and> sorted (map commit_time cs)
     \<and> (\<forall>m n. m < n \<and> n < length cs
           \<and> sig_time (author (cs ! m)) = commit_time (cs ! m)
           \<and> sig_time (author (cs ! n)) = commit_time (cs ! n)
           \<and> sig_offset (author (cs ! m)) = sig_offset (author (cs ! n))
           \<longrightarrow> created_of (cs ! m) \<le> created_of (cs ! n))"
proof -
  obtain latestCommit ids where w: "getBranchCommit r (branch this) = Inr latestCommit"
    "walk r (Push (commit_id latestCommit)) = Inr ids"
    "all_loop L this r (sorting r [SORT_TIME, SORT_REVERSE] ids) = Inr records"
    using Repository_all_unranged [OF assms] by blast
  let ?ids = "sorting r [SORT_TIME, SORT_REVERSE] ids"
  let ?cs = "yielded_commits L this r ?ids"
  have recs: "records = yielded L this r ?ids" using w(3) by (simp add: all_loop_yielded)
  have f: "map (formatRedirectCommit L this r) ?cs = map Inr records"
    using recs yielded_commits_format by simp
  have s: "sorted (map commit_time ?cs)"
    using sorting_ascending yielded_commits_sorted by blast
  have p: "\<forall>m n. m < n \<and> n < length ?cs
           \<and> sig_time (author (?cs ! m)) = commit_time (?cs ! m)
           \<and> sig_time (author (?cs ! n)) = commit_time (?cs ! n)
           \<and> sig_offset (author (?cs ! m)) = sig_offset (author (?cs ! n))
           \<longrightarrow> created_of (?cs ! m) \<le> created_of (?cs ! n)"
    using created_pairwise [OF s] by blast
  show ?thesis
    using w(1,2) yielded_commits_ids [of L this r ?ids] yielded_commits_get [of r L this ?ids]
      f s p
    by blast
qed

theorem all_in_commit_time_order_witness:
  "Repository_all sample_libs sample_Repository sample_repo JUndefined JUndefined
     = Inr [record_A, record_B, record_C]
   \<and> getBranchCommit sample_repo (branch sample_Repository) = Inr commit_M
   \<and> walk sample_repo (Push (commit_id commit_M))
       = Inr [commit_id commit_M, commit_id commit_C, commit_id commit_B, commit_id commit_A]
   \<and> filter (is_record sample_libs sample_Repository sample_repo)
        (sorting sample_repo [SORT_TIME, SORT_REVERSE]
          [commit_id commit_M, commit_id commit_C, commit_id commit_B, commit_id commit_A])
       = map commit_id [commit_A, commit_B, commit_C]
   \<and> map (getCommit sample_repo) (map commit_id [commit_A, commit_B, commit_C])
       = map Inr [commit_A, commit_B, commit_C]
   \<and> map (formatRedirectCommit sample_libs sample_Repository sample_repo)
        [commit_A, commit_B, commit_C]
       = map Inr [record_A, record_B, record_C]
   \<and> map commit_time [commit_A, commit_B, commit_C] = [1000, 2000, 3000]
   \<and> sig_time (author commit_A) = commit_time commit_A
   \<and> sig_time (author commit_C) = commit_time commit_C
   \<and> sig_offset (author commit_A) = sig_offset (author commit_C)
   \<and> created_of commit_A = 4600000 \<and> created_of commit_C = 6600000
   \<and> created_of commit_A \<le> created_of commit_C"
proof -
  let ?ids = "[commit_id commit_M, commit_id commit_C, commit_id commit_B, commit_id commit_A]"
  have b: "getBranchCommit sample_repo (branch sample_Repository) = Inr commit_M"
    using sample_getCommit(4) by (simp add: getBranchCommit_def sample_Repository_def sample_repo_def)
  have w: "walk sample_repo (Push (commit_id commit_M)) = Inr ?ids"
    by (simp add: sample_repo_def)
  have fl: "filter (is_record sample_libs sample_Repository sample_repo)
        (sorting sample_repo [SORT_TIME, SORT_REVERSE] ?ids)
       = map commit_id [commit_A, commit_B, commit_C]"
    by (simp add: sample_sorting is_record_def sample_getCommit sample_format_A sample_format_B
        sample_format_C sample_format_M)
  have g: "map (getCommit sample_repo) (map commit_id [commit_A, commit_B, commit_C])
       = map Inr [commit_A, commit_B, commit_C]"
    by (simp add: sample_getCommit)
  obtain latestCommit ids cs where h:
    "getBranchCommit sample_repo (branch sample_Repository) = Inr latestCommit"
    "walk sample_repo (Push (commit_id latestCommit)) = Inr ids"
    "map commit_id cs = filter (is_record sample_libs sample_Repository sample_repo)
       (sorting sample_repo [SORT_TIME, SORT_REVERSE] ids)"
    "map (getCommit sample_repo) (map commit_id cs) = map Inr cs"
    "map (formatRedirectCommit sample_libs sample_Repository sample_repo) cs
       = map Inr [record_A, record_B, record_C]"
    "sorted (map commit_time cs)"
    "\<forall>m n. m < n \<and> n < length cs
           \<and> sig_time (author (cs ! m)) = commit_time (cs ! m)
           \<and> sig_time (author (cs ! n)) = commit_time (cs ! n)
           \<and> sig_offset (author (cs ! m)) = sig_offset (author (cs ! n))
           \<longrightarrow> created_of (cs ! m) \<le> created_of (cs ! n)"
    using all_in_commit_time_order [OF sample_all] by blast
  have "latestCommit = commit_M" using h(1) b by simp
  then have "ids = ?ids" using h(2) w by simp
  then have "map commit_id cs = map commit_id [commit_A, commit_B, commit_C]"
    using h(3) fl by simp
  then have "map Inr cs = (map Inr [commit_A, commit_B, commit_C] :: (exn + commit) list)"
    using h(4) g by simp
  then have cs: "cs = [commit_A, commit_B, commit_C]"
    by (auto simp: map_eq_Cons_conv)
  have t: "sig_time (author commit_A) = commit_time commit_A"
    "sig_time (author commit_C) = commit_time commit_C"
    "sig_offset (author commit_A) = sig_offset (author commit_C)"
    "map commit_time [commit_A, commit_B, commit_C] = [1000, 2000, 3000]"
    "created_of commit_A = 4600000" "created_of commit_C = 6600000"
    by (simp_all add: commit_A_def commit_B_def commit_C_def sample_signature_def created_of_def)
  have "created_of (cs ! 0) \<le> created_of (cs ! 2)"
    using h(7) [rule_format, of 0 2] t(1-3) by (simp add: cs)
  then have c: "created_of commit_A \<le> created_of commit_C" by (simp add: cs)
  have f: "map (formatRedirectCommit sample_libs sample_Repository sample_repo)
        [commit_A, commit_B, commit_C] = map Inr [record_A, record_B, record_C]"
    using h(5) by (simp only: cs)
  show ?thesis using sample_all b w fl g f t c by simp
qed

text \<open>
  C9 as stated fails: \<open>commit_A\<close> was authored at time 1000 one hour east of Greenwich,
  \<open>commit_B\<close> at time 2000 one hour west of it. The traversal yields them in this order,
  and the creation time of the first record is later than that of the second.
\<close>

theorem all_in_commit_time_order_counterexample:
  "Repository_all sample_libs sample_Repository sample_repo JUndefined JUndefined
     = Inr [record_A, record_B, record_C]
   \<and> map (\<lambda>record. get_prop record ''created'') [record_A, record_B, record_C]
       = [JDate 4600000, JDate (- 1600000), JDate 6600000]
   \<and> \<not> sorted [4600000, - 1600000, 6600000 :: int]"
  using sample_all by (simp add: get_prop_def record_A_def record_B_def record_C_def)

text \<open>
  C3, as amended: let a commit's message lack a valid \<^verbatim>\<open>url\<close> key, because its header
  does not parse or because the data read from it hold no valid \<^verbatim>\<open>url\<close>. Formatting the
  commit throws, so the loop of \<^verbatim>\<open>all\<close> yields no record for its id; it passes over the id
  and goes on: what it yields is the records of the ids before, followed by the records of
  the ids after, and a record yielded for the id before it is still followed by those of
  the ids after it. \<^verbatim>\<open>get\<close> with an id that resolves to the commit throws
  \<^verbatim>\<open>Commit is not a Redirect\<close>, which the spec's taxonomy files under \<^verbatim>\<open>NotFound\<close>, when the
  message parses, and the parser's own error when the header does not parse.
\<close>

theorem non_record_commit_filtered:
  assumes "getCommit r i = Inr c" and "lacks_valid_url L c"
  shows "(\<exists>e. formatRedirectCommit L this r c = Inl e)
    \<and> all_loop L this r (before @ i # after)
        = Inr (yielded L this r before @ yielded L this r after)
    \<and> all_loop L this r before = Inr (yielded L this r before)
    \<and> all_loop L this r after = Inr (yielded L this r after)
    \<and> all_loop L this r (i # after) = all_loop L this r after
    \<and> (\<forall>j c' record.
          getCommit r j = Inr c' \<and> formatRedirectCommit L this r c' = Inr record \<longrightarrow>
          all_loop L this r (j # i # after) = Inr (record # yielded L this r after))
    \<and> (ident \<noteq> [] \<and> lookup_id L r ident = Inr (Obj c) \<longrightarrow>
         Repository_get L this r ident
           = (case matter L (trim (message c)) of
                Inl e \<Rightarrow> Inl e
              | Inr parsed \<Rightarrow> Inl (Error ''Commit is not a Redirect'')))
    \<and> NotFound (Error ''Commit is not a Redirect'')"
proof -
  note f = lacks_valid_url_format [OF assms(2), of this r]
  then have e: "\<exists>e. formatRedirectCommit L this r c = Inl e"
    by (auto split: sum.splits)
  then have y: "yielded L this r (i # ids) = yielded L this r ids" for ids
    using assms(1) by auto
  have a: "all_loop L this r (before @ i # after)
        = Inr (yielded L this r before @ yielded L this r after)"
    using y by (simp add: all_loop_yielded yielded_append)
  have s: "all_loop L this r (i # after) = all_loop L this r after"
    using y by (simp add: all_loop_yielded)
  have n: "\<forall>j c' record.
          getCommit r j = Inr c' \<and> formatRedirectCommit L this r c' = Inr record \<longrightarrow>
          all_loop L this r (j # i # after) = Inr (record # yielded L this r after)"
    using y by (simp add: all_loop_yielded)
  have g: "ident \<noteq> [] \<and> lookup_id L r ident = Inr (Obj c) \<longrightarrow>
         Repository_get L this r ident
           = (case matter L (trim (message c)) of
                Inl e \<Rightarrow> Inl e
              | Inr parsed \<Rightarrow> Inl (Error ''Commit is not a Redirect''))"
    using f by (simp add: Repository_get_def)
  show ?thesis using e a s n g by (simp add: all_loop_yielded NotFound_def)
qed

theorem non_record_commit_filtered_witness:
  "getCommit sample_repo (commit_id commit_M) = Inr commit_M
   \<and> lacks_valid_url sample_libs commit_M
   \<and> matter sample_libs (trim (message commit_M))
       = Inr (''Merge branch master of example.com'', [])
   \<and> ''62'' \<noteq> [] \<and> lookup_id sample_libs sample_repo ''62'' = Inr (Obj commit_M)
   \<and> all_loop sample_libs sample_Repository sample_repo
        ([commit_id commit_C] @ commit_id commit_M # [commit_id commit_A])
       = Inr [record_C, record_A]
   \<and> all_loop sample_libs sample_Repository sample_repo
        [commit_id commit_C, commit_id commit_M, commit_id commit_A]
       = Inr [record_C, record_A]
   \<and> Repository_get sample_libs sample_Repository sample_repo ''62''
       = Inl (Error ''Commit is not a Redirect'')
   \<and> getCommit (repo_with commit_U) (commit_id commit_U) = Inr commit_U
   \<and> lacks_valid_url sample_libs commit_U
   \<and> matter sample_libs (trim (message commit_U)) = Inl (LibraryError ''YAMLException'')
   \<and> sample_base58_encode (from_hex (commit_id commit_U)) \<noteq> []
   \<and> lookup_id sample_libs (repo_with commit_U)
        (sample_base58_encode (from_hex (commit_id commit_U))) = Inr (Obj commit_U)
   \<and> (\<exists>rc ra.
         formatRedirectCommit sample_libs sample_Repository (repo_with commit_U) commit_C
           = Inr rc
       \<and> formatRedirectCommit sample_libs sample_Repository (repo_with commit_U) commit_A
           = Inr ra
       \<and> all_loop sample_libs sample_Repository (repo_with commit_U)
            ([commit_id commit_C] @ commit_id commit_U # [commit_id commit_A])
           = Inr [rc, ra])
   \<and> Repository_get sample_libs sample_Repository (repo_with commit_U)
        (sample_base58_encode (from_hex (commit_id commit_U)))
       = Inl (LibraryError ''YAMLException'')"
proof -
  have m: "matter sample_libs (trim (message commit_M))
      = Inr (''Merge branch master of example.com'', [])"
    "matter sample_libs (trim (message commit_U)) = Inl (LibraryError ''YAMLException'')"
    using sample_matter_eval(4) sample_matter_U by simp_all
  have y: "yielded sample_libs sample_Repository sample_repo [commit_id commit_C] = [record_C]"
    "yielded sample_libs sample_Repository sample_repo [commit_id commit_A] = [record_A]"
    by (simp_all add: sample_getCommit sample_format_A sample_format_C)
  note M = non_record_commit_filtered [OF sample_getCommit(4) sample_lacks(1),
      of sample_Repository "[commit_id commit_C]" "[commit_id commit_A]" "''62''"]
  have 1: "all_loop sample_libs sample_Repository sample_repo
        ([commit_id commit_C] @ commit_id commit_M # [commit_id commit_A])
       = Inr [record_C, record_A]"
    using M y by simp
  have 2: "Repository_get sample_libs sample_Repository sample_repo ''62''
       = Inl (Error ''Commit is not a Redirect'')"
    using M sample_lookup_62 m(1) by simp
  note g = repo_with_commit(3) [OF sample_oid_U]
  obtain rc ra where r:
    "formatRedirectCommit sample_libs sample_Repository (repo_with commit_U) commit_C = Inr rc"
    "formatRedirectCommit sample_libs sample_Repository (repo_with commit_U) commit_A = Inr ra"
    using repo_with_sample(3,4) [OF sample_oid_U] by blast
  have yu: "yielded sample_libs sample_Repository (repo_with commit_U) [commit_id commit_C] = [rc]"
    "yielded sample_libs sample_Repository (repo_with commit_U) [commit_id commit_A] = [ra]"
    using r by (simp_all add: repo_with_sample(1,2) [OF sample_oid_U])
  note U = non_record_commit_filtered [OF g sample_lacks(2),
      of sample_Repository "[commit_id commit_C]" "[commit_id commit_A]"
      "sample_base58_encode (from_hex (commit_id commit_U))"]
  have 3: "all_loop sample_libs sample_Repository (repo_with commit_U)
        ([commit_id commit_C] @ commit_id commit_U # [commit_id commit_A]) = Inr [rc, ra]"
    using U yu by simp
  have 4: "Repository_get sample_libs sample_Repository (repo_with commit_U)
        (sample_base58_encode (from_hex (commit_id commit_U)))
       = Inl (LibraryError ''YAMLException'')"
    using U sample_lookup_U m(2) by simp
  show ?thesis
    using 1 2 3 4 r m g sample_getCommit(4) sample_lacks sample_lookup_62 sample_lookup_U
    by auto
qed

text \<open>
  C3 as stated fails: the header of \<open>commit_U\<close> does not parse, \<^verbatim>\<open>get\<close> with an id that
  resolves to it throws what the parser throws, and that is not one of the errors the
  spec's taxonomy files under \<^verbatim>\<open>NotFound\<close>.
\<close>

theorem non_record_commit_filtered_counterexample:
  "lacks_valid_url sample_libs commit_U
   \<and> lookup_id sample_libs (repo_with commit_U)
        (sample_base58_encode (from_hex (commit_id commit_U))) = Inr (Obj commit_U)
   \<and> Repository_get sample_libs sample_Repository (repo_with commit_U)
        (sample_base58_encode (from_hex (commit_id commit_U)))
       = Inl (LibraryError ''YAMLException'')
   \<and> \<not> NotFound (LibraryError ''YAMLException'')"
proof -
  have "formatRedirectCommit sample_libs sample_Repository (repo_with commit_U) commit_U
      = Inl (LibraryError ''YAMLException'')"
    using sample_matter_U by (simp add: formatRedirectCommit_def)
  then show ?thesis
    using sample_lacks(2) sample_lookup_U
    by (simp add: Repository_get_def NotFound_def)
qed

subsection \<open>Sync Engine\<close>

text \<open>
  The control flow of \<^verbatim>\<open>Repository.commit\<close>. It pushes the tracked branch. A push rejected
  as not a fast-forward is followed by a fetch, a merge of the remote-tracking branch
  into the tracked branch and one more push, whose outcome is the outcome of the method:
  when it fails too, its error is raised. A push that fails in any other way raises its
  error at once. The method never pushes more than twice.
\<close>

lemma Repository_commit_cases:
  assumes "getRemote r (upstream this) = Inr remote"
    and "pushspec = [''refs/heads/'' @ branch this @ '':refs/heads/'' @ branch this]"
    and "fetchspec = [''remotes/'' @ upstream this @ ''/'' @ branch this
                      @ '':refs/head/'' @ branch this]"
    and "theirs = ''refs/remotes/'' @ upstream this @ ''/'' @ branch this"
  shows "(remote_push L r remote pushspec = Inl (NodeGitError ENONFASTFORWARD)
          \<and> remote_fetch L r remote fetchspec = Inr r1
          \<and> mergeBranches L r1 (branch this) theirs = Inr r2 \<longrightarrow>
            fst (Repository_commit L this r)
              = [OpPush pushspec, OpFetch fetchspec, OpMergeBranches (branch this) theirs,
                 OpPush pushspec]
            \<and> snd (Repository_commit L this r)
              = (case remote_push L r2 remote pushspec of
                   Inl e3 \<Rightarrow> (Inl e3, r2)
                 | Inr r3 \<Rightarrow> (Inr (), r3)))
    \<and> (remote_push L r remote pushspec = Inl e \<and> e \<noteq> NodeGitError ENONFASTFORWARD \<longrightarrow>
          Repository_commit L this r = ([OpPush pushspec], Inl e, r))
    \<and> (remote_push L r remote pushspec = Inr r' \<longrightarrow>
          Repository_commit L this r = ([OpPush pushspec], Inr (), r'))
    \<and> length (filter is_push (fst (Repository_commit L this r))) \<le> 2"
  using assms
  by (auto simp: Repository_commit_def Let_def split: sum.splits)

text \<open>
  C5, at a store that is behind its remote. The first push is rejected as not a
  fast-forward, and the method goes on to fetch, merge and push once more, as the claim
  says. The refspec it fetches with, \<^verbatim>\<open>remotes/origin/master:refs/head/master\<close>, names as
  its source no reference the remote advertises and as its destination a reference
  other than \<^verbatim>\<open>refs/remotes/origin/master\<close>, the one the next statement merges. So the
  fetch brings nothing, the merge finds the stale remote-tracking branch already part of
  the local history, the second push is rejected like the first, and the store is left
  as it was: the remote's branch has been neither fetched nor merged. With a library
  that fetches the remote's branch into the remote-tracking branch, the same method at
  the same store ends with an accepted push.
\<close>

theorem sync_fetch_misses_remote_branch:
  "remote_refs diverged_repo ''refs/heads/master'' = Some (commit_id commit_R)
   \<and> refs diverged_repo ''refs/remotes/origin/master'' = Some (False, commit_id commit_M)
   \<and> Repository_commit sample_libs sample_Repository diverged_repo
       = ([OpPush [''refs/heads/master:refs/heads/master''],
           OpFetch [''remotes/origin/master:refs/head/master''],
           OpMergeBranches ''master'' ''refs/remotes/origin/master'',
           OpPush [''refs/heads/master:refs/heads/master'']],
          Inl (NodeGitError ENONFASTFORWARD), diverged_repo)
   \<and> fst (Repository_commit tracking_libs sample_Repository diverged_repo)
       = [OpPush [''refs/heads/master:refs/heads/master''],
          OpFetch [''remotes/origin/master:refs/head/master''],
          OpMergeBranches ''master'' ''refs/remotes/origin/master'',
          OpPush [''refs/heads/master:refs/heads/master'']]
   \<and> fst (snd (Repository_commit tracking_libs sample_Repository diverged_repo)) = Inr ()"
proof -
  let ?u = "''git@example.com:short/urls.git''"
  let ?ps = "[''refs/heads/master:refs/heads/master'']"
  note h = sample_remote(2) sample_specs(1) [symmetric] sample_specs(2) [symmetric]
    sample_specs(3) [symmetric]
  have b: "branch sample_Repository = ''master''" by (simp add: sample_Repository_def)
  have 1: "Repository_commit sample_libs sample_Repository diverged_repo
       = ([OpPush ?ps, OpFetch [''remotes/origin/master:refs/head/master''],
           OpMergeBranches ''master'' ''refs/remotes/origin/master'', OpPush ?ps],
          Inl (NodeGitError ENONFASTFORWARD), diverged_repo)"
    using Repository_commit_cases [OF h, of sample_libs diverged_repo diverged_repo]
      diverged_push diverged_fetch diverged_merge
    by (simp add: b prod_eq_iff)
  obtain r1 r2 r3 where t:
    "sample_remote_fetch diverged_repo ?u [''refs/heads/master:refs/remotes/origin/master'']
       = Inr r1"
    "sample_mergeBranches r1 ''master'' ''refs/remotes/origin/master'' = Inr r2"
    "sample_remote_push r2 ?u ?ps = Inr r3"
    using diverged_tracking by blast
  have 2: "fst (Repository_commit tracking_libs sample_Repository diverged_repo)
       = [OpPush ?ps, OpFetch [''remotes/origin/master:refs/head/master''],
          OpMergeBranches ''master'' ''refs/remotes/origin/master'', OpPush ?ps]
     \<and> fst (snd (Repository_commit tracking_libs sample_Repository diverged_repo)) = Inr ()"
    using Repository_commit_cases [OF h, of tracking_libs r1 r2] diverged_push t
    by (simp add: b tracking_libs_def)
  have 3: "remote_refs diverged_repo ''refs/heads/master'' = Some (commit_id commit_R)"
    "refs diverged_repo ''refs/remotes/origin/master'' = Some (False, commit_id commit_M)"
    by (simp_all add: diverged_repo_def sample_repo_def)
  show ?thesis using 1 2 3 by simp
qed

subsection \<open>Write Coordinator\<close>

text \<open>
  C2, as amended: \<^verbatim>\<open>create\<close> first validates the URL. Then it checks the tracked branch
  out: this is an action, not a test, and \<^verbatim>\<open>create\<close> raises the store's own error when
  it fails, as it does for a local branch while the index holds unresolved conflicts.
  When the reference is not a local branch the checkout does nothing, and an index with
  conflicts is rejected by the test of \<^verbatim>\<open>create\<close> itself. Then \<^verbatim>\<open>create\<close> rejects staged
  changes. Then it cleans the state of the store up before it tests it: where the
  cleanup ends the operation in progress, \<^verbatim>\<open>create\<close> does what it does on the same store
  with no operation in progress. The three rejections of \<^verbatim>\<open>create\<close> itself carry three
  different messages, and in each of the rejections above the references of the store,
  the tip of the tracked branch among them, are as before.
\<close>

theorem create_preconditions:
  "(isValidURL L (get_prop args ''url'') = Inr False \<longrightarrow>
      Repository_create L this r args = (Inl (Error ''A Valid URL is required.''), r))
   \<and> (isValidURL L (get_prop args ''url'') = Inr True
        \<and> checkoutBranch r (branch this) = Inl e \<longrightarrow>
      Repository_create L this r args = (Inl e, r))
   \<and> (isValidURL L (get_prop args ''url'') = Inr True
        \<and> refs r (branch this) = Some (True, t) \<and> getCommit r t = Inr c \<and> index_conflicts r \<longrightarrow>
      Repository_create L this r args = (Inl (NodeGitError ECONFLICT), r))
   \<and> (isValidURL L (get_prop args ''url'') = Inr True
        \<and> checkoutBranch r (branch this) = Inr r1 \<longrightarrow>
        refs r1 = refs r
      \<and> (index_conflicts r1 \<longrightarrow>
           Repository_create L this r args
             = (Inl (Error ''Datatabase Repository has Conflicts, cannot proceed.''), r1))
      \<and> (\<not> index_conflicts r1 \<and> hasStagedChanges r1 \<longrightarrow>
           Repository_create L this r args
             = (Inl (Error ''Datatabase Repository has Staged Changes, cannot proceed.''), r1))
      \<and> (\<not> index_conflicts r1 \<and> \<not> hasStagedChanges r1
           \<and> stateCleanup L (state r1) = Inr NONE \<and> stateCleanup L NONE = Inr NONE \<longrightarrow>
           Repository_create L this r args
             = Repository_create L this (r\<lparr>state := NONE\<rparr>) args))
   \<and> distinct [''A Valid URL is required.'',
        ''Datatabase Repository has Conflicts, cannot proceed.'',
        ''Datatabase Repository has Staged Changes, cannot proceed.'']"
  using checkoutBranch_refs [of r "branch this" r1]
    checkoutBranch_conflicts [of r "branch this" t c]
    Repository_create_state [of L args r this r1]
  by (simp add: Repository_create_staged [of L this r])

theorem create_preconditions_witness:
  "isValidURL sample_libs (get_prop [(''url'', JStr ''not-a-url'')] ''url'') = Inr False
   \<and> Repository_create sample_libs sample_Repository sample_repo [(''url'', JStr ''not-a-url'')]
       = (Inl (Error ''A Valid URL is required.''), sample_repo)
   \<and> isValidURL sample_libs (get_prop args_N ''url'') = Inr True
   \<and> checkoutBranch sample_repo (branch (sample_Repository\<lparr>branch := ''nowhere''\<rparr>))
       = Inl (NodeGitError ENOTFOUND)
   \<and> Repository_create sample_libs (sample_Repository\<lparr>branch := ''nowhere''\<rparr>) sample_repo args_N
       = (Inl (NodeGitError ENOTFOUND), sample_repo)
   \<and> refs (sample_repo\<lparr>index_conflicts := True\<rparr>) (branch sample_Repository)
       = Some (True, commit_id commit_M)
   \<and> getCommit (sample_repo\<lparr>index_conflicts := True\<rparr>) (commit_id commit_M) = Inr commit_M
   \<and> index_conflicts (sample_repo\<lparr>index_conflicts := True\<rparr>)
   \<and> checkoutBranch (sample_repo\<lparr>index_conflicts := True\<rparr>) (branch sample_Repository)
       = Inl (NodeGitError ECONFLICT)
   \<and> Repository_create sample_libs sample_Repository (sample_repo\<lparr>index_conflicts := True\<rparr>) args_N
       = (Inl (NodeGitError ECONFLICT), sample_repo\<lparr>index_conflicts := True\<rparr>)
   \<and> checkoutBranch (sample_repo\<lparr>index_conflicts := True\<rparr>)
         (branch (sample_Repository\<lparr>branch := ''refs/remotes/origin/master''\<rparr>))
       = Inr (sample_repo\<lparr>index_conflicts := True\<rparr>)
   \<and> Repository_create sample_libs (sample_Repository\<lparr>branch := ''refs/remotes/origin/master''\<rparr>)
         (sample_repo\<lparr>index_conflicts := True\<rparr>) args_N
       = (Inl (Error ''Datatabase Repository has Conflicts, cannot proceed.''),
          sample_repo\<lparr>index_conflicts := True\<rparr>)
   \<and> checkoutBranch (sample_repo\<lparr>index_patches := 2\<rparr>) (branch sample_Repository)
       = Inr (sample_repo\<lparr>index_patches := 2\<rparr>)
   \<and> \<not> index_conflicts (sample_repo\<lparr>index_patches := 2\<rparr>)
   \<and> hasStagedChanges (sample_repo\<lparr>index_patches := 2\<rparr>)
   \<and> Repository_create sample_libs sample_Repository (sample_repo\<lparr>index_patches := 2\<rparr>) args_N
       = (Inl (Error ''Datatabase Repository has Staged Changes, cannot proceed.''),
          sample_repo\<lparr>index_patches := 2\<rparr>)
   \<and> checkoutBranch (sample_repo\<lparr>state := MERGE\<rparr>) (branch sample_Repository)
       = Inr (sample_repo\<lparr>state := MERGE\<rparr>)
   \<and> \<not> index_conflicts (sample_repo\<lparr>state := MERGE\<rparr>)
   \<and> \<not> hasStagedChanges (sample_repo\<lparr>state := MERGE\<rparr>)
   \<and> stateCleanup sample_libs (state (sample_repo\<lparr>state := MERGE\<rparr>)) = Inr NONE
   \<and> stateCleanup sample_libs NONE = Inr NONE
   \<and> sample_repo\<lparr>state := MERGE, state := NONE\<rparr> = sample_repo
   \<and> Repository_create sample_libs sample_Repository (sample_repo\<lparr>state := MERGE\<rparr>) args_N
       = Repository_create sample_libs sample_Repository sample_repo args_N
   \<and> \<not> isl (fst (Repository_create sample_libs sample_Repository sample_repo args_N))"
proof -
  let ?rc = "sample_repo\<lparr>index_conflicts := True\<rparr>"
  let ?rp = "sample_repo\<lparr>index_patches := 2\<rparr>"
  let ?rm = "sample_repo\<lparr>state := MERGE\<rparr>"
  let ?tag = "sample_Repository\<lparr>branch := ''refs/remotes/origin/master''\<rparr>"
  have u: "get_prop [(''url'', JStr ''not-a-url'')] ''url'' = JStr ''not-a-url''"
    "get_prop args_N ''url'' = JStr ''http://example.com/n''"
    by (simp_all add: args_N_def get_prop_def)
  have b: "branch sample_Repository = ''master''" "branch ?tag = ''refs/remotes/origin/master''"
    by (simp_all add: sample_Repository_def)
  have g: "getCommit ?rc (commit_id commit_M) = Inr commit_M"
    "getCommit ?rp (commit_id commit_M) = Inr commit_M"
    "getCommit ?rm (commit_id commit_M) = Inr commit_M"
    using sample_getCommit(4) by (simp_all add: getCommit_def)
  have rf: "refs ?rc ''master'' = Some (True, commit_id commit_M)"
    "refs ?rc ''refs/remotes/origin/master'' = Some (False, commit_id commit_M)"
    "refs ?rp ''master'' = Some (True, commit_id commit_M)"
    "refs ?rm ''master'' = Some (True, commit_id commit_M)"
    by (simp_all add: sample_repo_def)
  have rf0: "refs sample_repo ''master'' = Some (True, commit_id commit_M)"
    by (simp add: sample_repo_def)
  have f: "index_conflicts ?rc" "\<not> index_conflicts ?rp" "\<not> index_conflicts ?rm"
    "?rp\<lparr>HEAD := ''master''\<rparr> = ?rp" "?rm\<lparr>HEAD := ''master''\<rparr> = ?rm"
    "sample_repo\<lparr>state := MERGE, state := NONE\<rparr> = sample_repo"
    by (simp_all add: sample_repo_def)
  have c: "checkoutBranch ?rc ''master'' = Inl (NodeGitError ECONFLICT)"
    "checkoutBranch ?rc ''refs/remotes/origin/master'' = Inr ?rc"
    "checkoutBranch ?rp ''master'' = Inr ?rp"
    "checkoutBranch ?rm ''master'' = Inr ?rm"
    using checkoutBranch_conflicts [OF rf(1) g(1) f(1)] checkoutBranch_other [OF rf(2)]
      checkoutBranch_branch [OF rf(3) g(2) f(2)] checkoutBranch_branch [OF rf(4) g(3) f(3)]
    by (simp_all only: f(4,5))
  have h: "hasStagedChanges ?rp" "\<not> hasStagedChanges ?rm"
    using sample_head by (simp_all add: hasStagedChanges_def getHeadCommit_update)
      (simp_all add: sample_repo_def)
  have ok: "\<not> isl (fst (Repository_create sample_libs sample_Repository sample_repo args_N))"
    using sample_format_N by (auto simp: sample_create_N(1))
  note A = create_preconditions [THEN conjunct1, rule_format]
  note B = create_preconditions [THEN conjunct2, THEN conjunct1, rule_format]
  note C = create_preconditions [THEN conjunct2, THEN conjunct2, THEN conjunct1, rule_format]
  note D = create_preconditions [THEN conjunct2, THEN conjunct2, THEN conjunct2, THEN conjunct1,
      rule_format]
  have 1: "Repository_create sample_libs sample_Repository sample_repo [(''url'', JStr ''not-a-url'')]
       = (Inl (Error ''A Valid URL is required.''), sample_repo)"
    by (rule A) (simp add: u sample_invalid)
  have 2: "Repository_create sample_libs (sample_Repository\<lparr>branch := ''nowhere''\<rparr>) sample_repo args_N
       = (Inl (NodeGitError ENOTFOUND), sample_repo)"
    by (rule B) (simp add: u sample_valid_n sample_checkout)
  have 3: "checkoutBranch ?rc (branch sample_Repository) = Inl (NodeGitError ECONFLICT)"
    using c(1) by (simp add: b)
  have 4: "Repository_create sample_libs sample_Repository ?rc args_N
       = (Inl (NodeGitError ECONFLICT), ?rc)"
    by (rule C [of _ _ _ _ "commit_id commit_M" commit_M]) (simp add: u sample_valid_n b rf0 g)
  have 5: "Repository_create sample_libs ?tag ?rc args_N
       = (Inl (Error ''Datatabase Repository has Conflicts, cannot proceed.''), ?rc)"
    using D [of sample_libs args_N ?rc ?tag ?rc]
    by (simp add: u b sample_valid_n c f)
  have 6: "Repository_create sample_libs sample_Repository ?rp args_N
       = (Inl (Error ''Datatabase Repository has Staged Changes, cannot proceed.''), ?rp)"
    using D [of sample_libs args_N ?rp sample_Repository ?rp]
    by (simp add: u b sample_valid_n c h f)
  have 7: "Repository_create sample_libs sample_Repository ?rm args_N
       = Repository_create sample_libs sample_Repository sample_repo args_N"
    using D [of sample_libs args_N ?rm sample_Repository ?rm]
    by (simp add: u b sample_valid_n c h f)
  show ?thesis
    using 1 2 3 4 5 6 7 ok
    by (simp add: u b sample_invalid sample_valid_n sample_checkout c h f g rf rf0)
qed

text \<open>
  C2 as stated fails. In \<open>topic_repo\<close> the tracked branch is not the branch checked out,
  and \<^verbatim>\<open>create\<close> raises nothing: it checks the tracked branch out and goes on to return
  a record. In a store that is in the middle of a merge \<^verbatim>\<open>create\<close> raises nothing
  either: the cleanup ends the merge, and the state \<^verbatim>\<open>create\<close> tests is the state after
  the cleanup.
\<close>

theorem create_preconditions_counterexample:
  "HEAD topic_repo \<noteq> branch sample_Repository
   \<and> \<not> isl (fst (Repository_create sample_libs sample_Repository topic_repo args_N))
   \<and> HEAD (snd (Repository_create sample_libs sample_Repository topic_repo args_N))
       = branch sample_Repository
   \<and> state (sample_repo\<lparr>state := MERGE\<rparr>) = MERGE
   \<and> \<not> isl (fst (Repository_create sample_libs sample_Repository
                    (sample_repo\<lparr>state := MERGE\<rparr>) args_N))"
  using sample_format_N
  by (auto simp: sample_create_N(2,3))
    (simp_all add: topic_repo_def sample_Repository_def repo_N_def sample_repo_def)




end
